theory Spec2Isabelle
  imports Complex_Main "HOL-Library.Monad_Syntax" "HOL-Library.Char_ord" "HOL-Library.List_Lexorder"
begin

section \<open>Python values stored in the registry\<close>

text \<open>
  The records of \<^verbatim>\<open>plasmapy/atomic/particles.py\<close> hold strings, integers, floats,
  booleans, \<^verbatim>\<open>None\<close>, astropy quantities (a float times a unit) and three astropy
  constants. No arithmetic is done on any of them: a float literal is stored as written,
  so it is represented by the decimal value of the literal, and \<^verbatim>\<open>np.inf\<close> by a
  constructor of its own. The astropy constants \<^verbatim>\<open>const.m_e\<close>, \<^verbatim>\<open>const.m_p\<close>
  and \<^verbatim>\<open>const.m_n\<close> come from outside the repository and are kept opaque.
\<close>

datatype astropy_unit = u_kg | u_s

datatype pyfloat = Finite rat | Infinity

datatype astropy_const = m_e | m_p | m_n

datatype pyval =
    PyStr string
  | PyInt int
  | PyFloat pyfloat
  | PyBool bool
  | PyNone
  | Quantity pyfloat astropy_unit
  | Constant astropy_const

text \<open>An inner dictionary (one particle's record) and the dictionary of dictionaries.\<close>

type_synonym fields = "string \<rightharpoonup> pyval"
type_synonym particles_dict = "string \<rightharpoonup> fields"

section \<open>Python operations used by the source\<close>

text \<open>\<^verbatim>\<open>p in s\<close> on two strings: \<open>p\<close> occurs in \<open>s\<close> as a contiguous substring.\<close>

fun py_in :: "string \<Rightarrow> string \<Rightarrow> bool" where
  "py_in p [] = (p = [])"
| "py_in p (c # cs) = (take (length p) (c # cs) = p \<or> py_in p cs)"

text \<open>
  \<^verbatim>\<open>Particles[k][f] = v\<close>: the outer subscript raises \<^verbatim>\<open>KeyError\<close> when \<open>k\<close> is not
  a key of the outer dictionary (the result \<open>None\<close>); otherwise the inner dictionary of
  \<open>k\<close> is updated at \<open>f\<close>. Every inner dictionary is created by its own call of
  \<^verbatim>\<open>dict()\<close>, so no two symbols share one.
\<close>

definition setitem2 :: "particles_dict \<Rightarrow> string \<Rightarrow> string \<Rightarrow> pyval \<Rightarrow> particles_dict option" where
  "setitem2 P k f v = (case P k of None \<Rightarrow> None | Some r \<Rightarrow> Some (P(k \<mapsto> r(f \<mapsto> v))))"

text \<open>
  A \<^verbatim>\<open>for\<close> loop whose body updates the dictionary and may raise: the elements are
  visited in the order of the list, and the first exception ends the loop.
\<close>

fun for_each :: "('a \<Rightarrow> 's \<Rightarrow> 's option) \<Rightarrow> 'a list \<Rightarrow> 's \<Rightarrow> 's option" where
  "for_each body [] P = Some P"
| "for_each body (x # xs) P =
     (case body x P of None \<Rightarrow> None | Some P' \<Rightarrow> for_each body xs P')"

text \<open>
  Python does not fix the order in which a \<^verbatim>\<open>for\<close> loop visits a set of strings (it
  changes with the hash seed of the process). The build therefore takes the order as a
  parameter: \<open>it n S\<close> is the list of elements that the \<open>n\<close>-th loop over a set visits when
  the set is \<open>S\<close>. An order is admissible when it lists every finite set without
  repetition.
\<close>

type_synonym iteration = "nat \<Rightarrow> string set \<Rightarrow> string list"

definition admissible :: "iteration \<Rightarrow> bool" where
  "admissible it = (\<forall>n S. finite S \<longrightarrow> set (it n S) = S \<and> distinct (it n S))"

section \<open>The taxonomy: \<^verbatim>\<open>_ParticleZooClass\<close>\<close>

definition leptons :: "string set" where
  "leptons = {''e-'', ''mu-'', ''tau-'', ''nu_e'', ''nu_mu'', ''nu_tau''}"

definition antileptons :: "string set" where
  "antileptons = {''e+'', ''mu+'', ''tau+'', ''anti_nu_e'', ''anti_nu_mu'', ''anti_nu_tau''}"

definition baryons :: "string set" where
  "baryons = {''p+'', ''n''}"

definition antibaryons :: "string set" where
  "antibaryons = {''p-'', ''antineutron''}"

definition particles :: "string set" where
  "particles = leptons \<union> baryons"

definition antiparticles :: "string set" where
  "antiparticles = antileptons \<union> antibaryons"

definition fermions :: "string set" where
  "fermions = leptons \<union> antileptons \<union> baryons \<union> antibaryons"

definition bosons :: "string set" where
  "bosons = {}"

definition neutrinos :: "string set" where
  "neutrinos = {lepton \<in> leptons. py_in ''nu'' lepton}"

definition antineutrinos :: "string set" where
  "antineutrinos = {antilepton \<in> antileptons. py_in ''nu'' antilepton}"

definition taxonomy_dict :: "string \<rightharpoonup> string set" where
  "taxonomy_dict =
     [''lepton'' \<mapsto> leptons,
      ''antilepton'' \<mapsto> antileptons,
      ''baryon'' \<mapsto> baryons,
      ''antibaryon'' \<mapsto> antibaryons,
      ''fermion'' \<mapsto> fermions,
      ''boson'' \<mapsto> bosons,
      ''neutrino'' \<mapsto> neutrinos,
      ''antineutrinos'' \<mapsto> antineutrinos,
      ''matter'' \<mapsto> particles,
      ''antimatter'' \<mapsto> antiparticles]"

text \<open>
  The properties of the class subscript \<^verbatim>\<open>_taxonomy_dict\<close>; a missing key would raise
  \<^verbatim>\<open>KeyError\<close>, the result \<open>None\<close>.
\<close>

definition ParticleZoo_leptons :: "string set option" where
  "ParticleZoo_leptons = taxonomy_dict ''lepton''"

definition ParticleZoo_antileptons :: "string set option" where
  "ParticleZoo_antileptons = taxonomy_dict ''antilepton''"

definition ParticleZoo_baryons :: "string set option" where
  "ParticleZoo_baryons = taxonomy_dict ''baryon''"

definition ParticleZoo_antibaryons :: "string set option" where
  "ParticleZoo_antibaryons = taxonomy_dict ''antibaryon''"

definition ParticleZoo_fermions :: "string set option" where
  "ParticleZoo_fermions = taxonomy_dict ''fermion''"

definition ParticleZoo_bosons :: "string set option" where
  "ParticleZoo_bosons = taxonomy_dict ''boson''"

definition ParticleZoo_neutrinos :: "string set option" where
  "ParticleZoo_neutrinos = taxonomy_dict ''neutrino''"

definition ParticleZoo_antineutrinos :: "string set option" where
  "ParticleZoo_antineutrinos = taxonomy_dict ''antineutrinos''"

definition ParticleZoo_particles :: "string set option" where
  "ParticleZoo_particles = taxonomy_dict ''matter''"

definition ParticleZoo_antiparticles :: "string set option" where
  "ParticleZoo_antiparticles = taxonomy_dict ''antimatter''"

definition ParticleZoo_everything :: "string set option" where
  "ParticleZoo_everything =
     do { m \<leftarrow> taxonomy_dict ''matter''; a \<leftarrow> taxonomy_dict ''antimatter''; Some (m \<union> a) }"

section \<open>The registry build: \<^verbatim>\<open>_create_Particles_dict\<close>\<close>

definition symbols_and_names :: "(string \<times> string) list" where
  "symbols_and_names =
     [(''e-'', ''electron''),
      (''e+'', ''positron''),
      (''mu-'', ''muon''),
      (''mu+'', ''antimuon''),
      (''tau-'', ''tau''),
      (''tau+'', ''antitau''),
      (''nu_e'', ''electron neutrino''),
      (''anti_nu_e'', ''electron antineutrino''),
      (''nu_mu'', ''muon neutrino''),
      (''anti_nu_mu'', ''muon antineutrino''),
      (''nu_tau'', ''tau neutrino''),
      (''anti_nu_tau'', ''tau antineutrino''),
      (''p+'', ''proton''),
      (''p-'', ''antiproton''),
      (''n'', ''neutron''),
      (''antineutron'', ''antineutron'')]"

text \<open>The loop bodies, one definition per loop, in the order of the source.\<close>

definition init_body :: "string \<Rightarrow> particles_dict \<Rightarrow> particles_dict option" where
  "init_body thing P = Some (P(thing \<mapsto> Map.empty))"

definition name_body :: "string \<times> string \<Rightarrow> particles_dict \<Rightarrow> particles_dict option" where
  "name_body sn P = setitem2 P (fst sn) ''name'' (PyStr (snd sn))"

definition fermion_body :: "string \<Rightarrow> particles_dict \<Rightarrow> particles_dict option" where
  "fermion_body fermion P = setitem2 P fermion ''spin'' (PyFloat (Finite (5 / 10)))"

definition boson_body :: "string \<Rightarrow> particles_dict \<Rightarrow> particles_dict option" where
  "boson_body boson P = setitem2 P boson ''spin'' (PyInt 0)"

definition lepton_body :: "string \<Rightarrow> particles_dict \<Rightarrow> particles_dict option" where
  "lepton_body lepton P =
     do {
       P \<leftarrow> setitem2 P lepton ''class'' (PyStr ''lepton'');
       P \<leftarrow> setitem2 P lepton ''lepton number'' (PyInt 1);
       P \<leftarrow> setitem2 P lepton ''baryon number'' (PyInt 0);
       nus \<leftarrow> ParticleZoo_neutrinos;
       if lepton \<notin> nus
       then setitem2 P lepton ''charge'' (PyInt (- 1))
       else setitem2 P lepton ''charge'' (PyInt 0)
     }"

definition antilepton_body :: "string \<Rightarrow> particles_dict \<Rightarrow> particles_dict option" where
  "antilepton_body antilepton P =
     do {
       P \<leftarrow> setitem2 P antilepton ''class'' (PyStr ''antilepton'');
       P \<leftarrow> setitem2 P antilepton ''lepton number'' (PyInt (- 1));
       P \<leftarrow> setitem2 P antilepton ''baryon number'' (PyInt 0);
       anus \<leftarrow> ParticleZoo_antineutrinos;
       if antilepton \<notin> anus
       then setitem2 P antilepton ''charge'' (PyInt 1)
       else setitem2 P antilepton ''charge'' (PyInt 0)
     }"

definition baryon_body :: "string \<Rightarrow> particles_dict \<Rightarrow> particles_dict option" where
  "baryon_body baryon P =
     do {
       P \<leftarrow> setitem2 P baryon ''class'' (PyStr ''baryon'');
       P \<leftarrow> setitem2 P baryon ''lepton number'' (PyInt 0);
       setitem2 P baryon ''baryon number'' (PyInt 1)
     }"

definition antibaryon_body :: "string \<Rightarrow> particles_dict \<Rightarrow> particles_dict option" where
  "antibaryon_body antibaryon P =
     do {
       P \<leftarrow> setitem2 P antibaryon ''class'' (PyStr ''antibaryon'');
       P \<leftarrow> setitem2 P antibaryon ''lepton number'' (PyInt 0);
       setitem2 P antibaryon ''baryon number'' (PyInt (- 1))
     }"

definition generation_body :: "string \<Rightarrow> particles_dict \<Rightarrow> particles_dict option" where
  "generation_body thing P =
     (if py_in ''e'' thing then setitem2 P thing ''generation'' (PyInt 1)
      else if py_in ''mu'' thing then setitem2 P thing ''generation'' (PyInt 2)
      else if py_in ''tau'' thing then setitem2 P thing ''generation'' (PyInt 3)
      else Some P)"

definition mass_body :: "string \<Rightarrow> particles_dict \<Rightarrow> particles_dict option" where
  "mass_body thing P =
     (if \<not> py_in ''nu'' thing then
        if py_in ''e'' thing then setitem2 P thing ''mass'' (Constant m_e)
        else if py_in ''mu'' thing then
          do {
            P \<leftarrow> setitem2 P thing ''mass'' (Quantity (Finite (1883531594 / 10 ^ 37)) u_kg);
            setitem2 P thing ''half-life'' (Quantity (Finite (21969811 / 10 ^ 13)) u_s)
          }
        else if py_in ''tau'' thing then
          do {
            P \<leftarrow> setitem2 P thing ''mass'' (Quantity (Finite (316747 / 10 ^ 32)) u_kg);
            setitem2 P thing ''half-life'' (Quantity (Finite (2906 / 10 ^ 16)) u_s)
          }
        else Some P
      else Some P)"

definition neutrino_mass_body :: "string \<Rightarrow> particles_dict \<Rightarrow> particles_dict option" where
  "neutrino_mass_body thing P = setitem2 P thing ''mass'' PyNone"

definition proton_mass_body :: "string \<Rightarrow> particles_dict \<Rightarrow> particles_dict option" where
  "proton_mass_body thing P = setitem2 P thing ''mass'' (Constant m_p)"

definition neutron_body :: "string \<Rightarrow> particles_dict \<Rightarrow> particles_dict option" where
  "neutron_body thing P =
     do {
       P \<leftarrow> setitem2 P thing ''mass'' (Constant m_n);
       P \<leftarrow> setitem2 P thing ''half-life'' (Quantity (Finite (8815 / 10)) u_s);
       setitem2 P thing ''charge'' (PyInt 0)
     }"

definition half_life_body :: "string \<Rightarrow> particles_dict \<Rightarrow> particles_dict option" where
  "half_life_body thing P =
     (case P thing of
        None \<Rightarrow> None
      | Some r \<Rightarrow>
          if ''half-life'' \<notin> dom r
          then setitem2 P thing ''half-life'' (Quantity Infinity u_s)
          else Some P)"

definition particle_body :: "string \<Rightarrow> particles_dict \<Rightarrow> particles_dict option" where
  "particle_body particle P = setitem2 P particle ''antimatter'' (PyBool False)"

definition antiparticle_body :: "string \<Rightarrow> particles_dict \<Rightarrow> particles_dict option" where
  "antiparticle_body antiparticle P = setitem2 P antiparticle ''antimatter'' (PyBool True)"

text \<open>
  The function body is cut into four parts, so that the dictionary as it stands between
  them can be named: the passes up to the class passes (lines 156 to 196 of the source),
  the passes from the generation to the proton mass (lines 198 to 225), the assignment
  of the proton charge (lines 227 and 228), and the passes from the neutron to the
  antimatter flag (lines 230 to 243).
\<close>

definition passes_to_class :: "iteration \<Rightarrow> particles_dict option" where
  "passes_to_class it =
     do {
       everything \<leftarrow> ParticleZoo_everything;
       P \<leftarrow> for_each init_body (it 0 everything) Map.empty;
       P \<leftarrow> for_each name_body symbols_and_names P;
       fs \<leftarrow> ParticleZoo_fermions;
       P \<leftarrow> for_each fermion_body (it 1 fs) P;
       bs \<leftarrow> ParticleZoo_bosons;
       P \<leftarrow> for_each boson_body (it 2 bs) P;
       ls \<leftarrow> ParticleZoo_leptons;
       P \<leftarrow> for_each lepton_body (it 3 ls) P;
       als \<leftarrow> ParticleZoo_antileptons;
       P \<leftarrow> for_each antilepton_body (it 4 als) P;
       bas \<leftarrow> ParticleZoo_baryons;
       P \<leftarrow> for_each baryon_body (it 5 bas) P;
       abas \<leftarrow> ParticleZoo_antibaryons;
       for_each antibaryon_body (it 6 abas) P
     }"

definition passes_from_generation :: "iteration \<Rightarrow> particles_dict \<Rightarrow> particles_dict option" where
  "passes_from_generation it P0 =
     do {
       ls \<leftarrow> ParticleZoo_leptons;
       als \<leftarrow> ParticleZoo_antileptons;
       P \<leftarrow> for_each generation_body (it 7 (ls \<union> als)) P0;
       ls \<leftarrow> ParticleZoo_leptons;
       als \<leftarrow> ParticleZoo_antileptons;
       P \<leftarrow> for_each mass_body (it 8 (ls \<union> als)) P;
       nus \<leftarrow> ParticleZoo_neutrinos;
       anus \<leftarrow> ParticleZoo_antineutrinos;
       P \<leftarrow> for_each neutrino_mass_body (it 9 (nus \<union> anus)) P;
       for_each proton_mass_body [''p+'', ''p-''] P
     }"

definition passes_to_proton_mass :: "iteration \<Rightarrow> particles_dict option" where
  "passes_to_proton_mass it = passes_to_class it \<bind> passes_from_generation it"

definition proton_charge_pass :: "particles_dict \<Rightarrow> particles_dict option" where
  "proton_charge_pass P0 =
     do {
       P \<leftarrow> setitem2 P0 ''p+'' ''charge'' (PyInt 1);
       setitem2 P ''p-'' ''charge'' (PyInt (- 1))
     }"

definition passes_from_neutron :: "iteration \<Rightarrow> particles_dict \<Rightarrow> particles_dict option" where
  "passes_from_neutron it P0 =
     do {
       P \<leftarrow> for_each neutron_body [''n'', ''antineutron''] P0;
       everything \<leftarrow> ParticleZoo_everything;
       P \<leftarrow> for_each half_life_body (it 10 everything) P;
       ps \<leftarrow> ParticleZoo_particles;
       P \<leftarrow> for_each particle_body (it 11 ps) P;
       aps \<leftarrow> ParticleZoo_antiparticles;
       for_each antiparticle_body (it 12 aps) P
     }"

definition passes_from_proton_charge :: "iteration \<Rightarrow> particles_dict \<Rightarrow> particles_dict option" where
  "passes_from_proton_charge it P0 = proton_charge_pass P0 \<bind> passes_from_neutron it"

definition create_Particles_dict :: "iteration \<Rightarrow> particles_dict option" where
  "create_Particles_dict it = passes_to_proton_mass it \<bind> passes_from_proton_charge it"

section \<open>Reading the built dictionary\<close>

text \<open>
  What \<^verbatim>\<open>Particles[symbol][field]\<close> finds once the build has run: the build itself may
  have raised, the symbol may be no key of the outer dictionary, the field may be no key
  of the symbol's record, or the field holds a value.
\<close>

datatype outcome = Build_raised | No_symbol | No_field | Present pyval

definition read_field :: "particles_dict option \<Rightarrow> string \<Rightarrow> string \<Rightarrow> outcome" where
  "read_field res symbol field =
     (case res of
        None \<Rightarrow> Build_raised
      | Some P \<Rightarrow>
          (case P symbol of
             None \<Rightarrow> No_symbol
           | Some r \<Rightarrow> (case r field of None \<Rightarrow> No_field | Some v \<Rightarrow> Present v)))"

definition populated :: "particles_dict option \<Rightarrow> string \<Rightarrow> string \<Rightarrow> bool" where
  "populated res symbol field =
     (case read_field res symbol field of Present v \<Rightarrow> True | _ \<Rightarrow> False)"

text \<open>The ten field names of a particle record.\<close>

definition record_fields :: "string list" where
  "record_fields =
     [''name'', ''class'', ''spin'', ''charge'', ''lepton number'', ''baryon number'',
      ''generation'', ''mass'', ''half-life'', ''antimatter'']"

text \<open>The value of the property \<^verbatim>\<open>everything\<close>: matter and antimatter together.\<close>

definition everything :: "string set" where
  "everything = particles \<union> antiparticles"

text \<open>Two concrete iteration orders: every set in ascending, or in descending, order.\<close>

definition sorted_order :: iteration where
  "sorted_order n S = sorted_list_of_set S"

definition reverse_order :: iteration where
  "reverse_order n S = rev (sorted_list_of_set S)"

text \<open>Exactly one of a list of tests holds.\<close>

definition exactly_one :: "bool list \<Rightarrow> bool" where
  "exactly_one bs = (length (filter id bs) = 1)"

text \<open>
  The particle and antiparticle symbols, paired, and the relations between two values
  read from their records: the second is the integer opposite to the first, or both are
  the same value.
\<close>

definition antiparticle_pairs :: "(string \<times> string) list" where
  "antiparticle_pairs =
     [(''e-'', ''e+''), (''mu-'', ''mu+''), (''tau-'', ''tau+''),
      (''nu_e'', ''anti_nu_e''), (''nu_mu'', ''anti_nu_mu''), (''nu_tau'', ''anti_nu_tau''),
      (''p+'', ''p-''), (''n'', ''antineutron'')]"

fun negated :: "outcome \<Rightarrow> outcome \<Rightarrow> bool" where
  "negated (Present (PyInt c)) (Present (PyInt d)) = (d = - c)"
| "negated _ _ = False"

fun same_value :: "outcome \<Rightarrow> outcome \<Rightarrow> bool" where
  "same_value (Present v) (Present w) = (v = w)"
| "same_value _ _ = False"

section \<open>The passes, record by record\<close>

text \<open>
  Every loop body touches the record of its own symbol only. The functions below give,
  for each body, what it does to that record; \<open>upd_on A g R\<close> applies \<open>g\<close> to the records
  of the symbols in \<open>A\<close>, and \<open>tab S R\<close> is the dictionary with keys \<open>S\<close> and records \<open>R\<close>.
  They are proved below to describe the loops, whatever the iteration order.
\<close>

definition tab :: "string set \<Rightarrow> (string \<Rightarrow> fields) \<Rightarrow> particles_dict" where
  "tab S R = (\<lambda>k. if k \<in> S then Some (R k) else None)"

definition upd_on :: "string set \<Rightarrow> (string \<Rightarrow> fields \<Rightarrow> fields) \<Rightarrow> (string \<Rightarrow> fields) \<Rightarrow> string \<Rightarrow> fields" where
  "upd_on A g R = (\<lambda>k. if k \<in> A then g k (R k) else R k)"

definition name_fields :: "string \<Rightarrow> fields \<Rightarrow> fields" where
  "name_fields k r = (case map_of symbols_and_names k of None \<Rightarrow> r | Some n \<Rightarrow> r(''name'' \<mapsto> PyStr n))"

definition fermion_fields :: "string \<Rightarrow> fields \<Rightarrow> fields" where
  "fermion_fields k r = r(''spin'' \<mapsto> PyFloat (Finite (5 / 10)))"

definition boson_fields :: "string \<Rightarrow> fields \<Rightarrow> fields" where
  "boson_fields k r = r(''spin'' \<mapsto> PyInt 0)"

definition lepton_fields :: "string \<Rightarrow> fields \<Rightarrow> fields" where
  "lepton_fields k r =
     r(''class'' \<mapsto> PyStr ''lepton'', ''lepton number'' \<mapsto> PyInt 1, ''baryon number'' \<mapsto> PyInt 0,
       ''charge'' \<mapsto> (if k \<notin> neutrinos then PyInt (- 1) else PyInt 0))"

definition antilepton_fields :: "string \<Rightarrow> fields \<Rightarrow> fields" where
  "antilepton_fields k r =
     r(''class'' \<mapsto> PyStr ''antilepton'', ''lepton number'' \<mapsto> PyInt (- 1), ''baryon number'' \<mapsto> PyInt 0,
       ''charge'' \<mapsto> (if k \<notin> antineutrinos then PyInt 1 else PyInt 0))"

definition baryon_fields :: "string \<Rightarrow> fields \<Rightarrow> fields" where
  "baryon_fields k r =
     r(''class'' \<mapsto> PyStr ''baryon'', ''lepton number'' \<mapsto> PyInt 0, ''baryon number'' \<mapsto> PyInt 1)"

definition antibaryon_fields :: "string \<Rightarrow> fields \<Rightarrow> fields" where
  "antibaryon_fields k r =
     r(''class'' \<mapsto> PyStr ''antibaryon'', ''lepton number'' \<mapsto> PyInt 0, ''baryon number'' \<mapsto> PyInt (- 1))"

definition generation_fields :: "string \<Rightarrow> fields \<Rightarrow> fields" where
  "generation_fields k r =
     (if py_in ''e'' k then r(''generation'' \<mapsto> PyInt 1)
      else if py_in ''mu'' k then r(''generation'' \<mapsto> PyInt 2)
      else if py_in ''tau'' k then r(''generation'' \<mapsto> PyInt 3)
      else r)"

definition mass_fields :: "string \<Rightarrow> fields \<Rightarrow> fields" where
  "mass_fields k r =
     (if \<not> py_in ''nu'' k then
        if py_in ''e'' k then r(''mass'' \<mapsto> Constant m_e)
        else if py_in ''mu'' k then
          r(''mass'' \<mapsto> Quantity (Finite (1883531594 / 10 ^ 37)) u_kg,
            ''half-life'' \<mapsto> Quantity (Finite (21969811 / 10 ^ 13)) u_s)
        else if py_in ''tau'' k then
          r(''mass'' \<mapsto> Quantity (Finite (316747 / 10 ^ 32)) u_kg,
            ''half-life'' \<mapsto> Quantity (Finite (2906 / 10 ^ 16)) u_s)
        else r
      else r)"

definition neutrino_mass_fields :: "string \<Rightarrow> fields \<Rightarrow> fields" where
  "neutrino_mass_fields k r = r(''mass'' \<mapsto> PyNone)"

definition proton_mass_fields :: "string \<Rightarrow> fields \<Rightarrow> fields" where
  "proton_mass_fields k r = r(''mass'' \<mapsto> Constant m_p)"

definition neutron_fields :: "string \<Rightarrow> fields \<Rightarrow> fields" where
  "neutron_fields k r =
     r(''mass'' \<mapsto> Constant m_n, ''half-life'' \<mapsto> Quantity (Finite (8815 / 10)) u_s,
       ''charge'' \<mapsto> PyInt 0)"

definition half_life_fields :: "string \<Rightarrow> fields \<Rightarrow> fields" where
  "half_life_fields k r =
     (if ''half-life'' \<notin> dom r then r(''half-life'' \<mapsto> Quantity Infinity u_s) else r)"

definition particle_fields :: "string \<Rightarrow> fields \<Rightarrow> fields" where
  "particle_fields k r = r(''antimatter'' \<mapsto> PyBool False)"

definition antiparticle_fields :: "string \<Rightarrow> fields \<Rightarrow> fields" where
  "antiparticle_fields k r = r(''antimatter'' \<mapsto> PyBool True)"

definition records_to_class :: "string \<Rightarrow> fields" where
  "records_to_class =
     upd_on antibaryons antibaryon_fields
      (upd_on baryons baryon_fields
        (upd_on antileptons antilepton_fields
          (upd_on leptons lepton_fields
            (upd_on bosons boson_fields
              (upd_on fermions fermion_fields
                (upd_on UNIV name_fields (\<lambda>_. Map.empty)))))))"

definition records_from_generation :: "(string \<Rightarrow> fields) \<Rightarrow> string \<Rightarrow> fields" where
  "records_from_generation R =
     upd_on {''p+'', ''p-''} proton_mass_fields
      (upd_on (neutrinos \<union> antineutrinos) neutrino_mass_fields
        (upd_on (leptons \<union> antileptons) mass_fields
          (upd_on (leptons \<union> antileptons) generation_fields R)))"

definition records_to_proton_mass :: "string \<Rightarrow> fields" where
  "records_to_proton_mass = records_from_generation records_to_class"

definition proton_charge_records :: "(string \<Rightarrow> fields) \<Rightarrow> string \<Rightarrow> fields" where
  "proton_charge_records R =
     upd_on {''p-''} (\<lambda>_ r. r(''charge'' \<mapsto> PyInt (- 1)))
      (upd_on {''p+''} (\<lambda>_ r. r(''charge'' \<mapsto> PyInt 1)) R)"

definition records_from_neutron :: "(string \<Rightarrow> fields) \<Rightarrow> string \<Rightarrow> fields" where
  "records_from_neutron R =
     upd_on antiparticles antiparticle_fields
      (upd_on particles particle_fields
        (upd_on everything half_life_fields
          (upd_on {''n'', ''antineutron''} neutron_fields R)))"

definition records_from_proton_charge :: "(string \<Rightarrow> fields) \<Rightarrow> string \<Rightarrow> fields" where
  "records_from_proton_charge R = records_from_neutron (proton_charge_records R)"

definition final_records :: "string \<Rightarrow> fields" where
  "final_records = records_from_proton_charge records_to_proton_mass"

section \<open>The loops, whatever the iteration order\<close>

lemma for_each_init:
  "distinct xs \<Longrightarrow> for_each init_body xs (tab S R) = Some (tab (S \<union> set xs) (upd_on (set xs) (\<lambda>_ _. Map.empty) R))"
proof (induction xs arbitrary: S R)
  case Nil
  show ?case by (simp add: upd_on_def)
next
  case (Cons x xs)
  have step: "init_body x (tab S R) = Some (tab (insert x S) (R(x := Map.empty)))"
    by (auto simp: init_body_def tab_def fun_eq_iff)
  from Cons.prems have d: "distinct xs" and nx: "x \<notin> set xs" by simp_all
  have "for_each init_body (x # xs) (tab S R) = for_each init_body xs (tab (insert x S) (R(x := Map.empty)))"
    by (simp add: step)
  also have "\<dots> = Some (tab (insert x S \<union> set xs) (upd_on (set xs) (\<lambda>_ _. Map.empty) (R(x := Map.empty))))"
    by (rule Cons.IH [OF d])
  also have "tab (insert x S \<union> set xs) (upd_on (set xs) (\<lambda>_ _. Map.empty) (R(x := Map.empty)))
      = tab (S \<union> set (x # xs)) (upd_on (set (x # xs)) (\<lambda>_ _. Map.empty) R)"
    by (auto simp: tab_def upd_on_def fun_eq_iff)
  finally show ?case .
qed

lemma tab_empty: "Map.empty = tab {} R"
  by (simp add: tab_def)

lemma setitem2_tab:
  "k \<in> S \<Longrightarrow> setitem2 (tab S R) k f v = Some (tab S (R(k := (R k)(f \<mapsto> v))))"
  by (auto simp: setitem2_def tab_def fun_eq_iff)

lemma for_each_local:
  assumes body: "\<And>x R. x \<in> S \<Longrightarrow> body x (tab S R) = Some (tab S (R(x := g x (R x))))"
  shows "distinct xs \<Longrightarrow> set xs \<subseteq> S \<Longrightarrow>
    for_each body xs (tab S R) = Some (tab S (upd_on (set xs) g R))"
proof (induction xs arbitrary: R)
  case Nil
  show ?case by (simp add: upd_on_def)
next
  case (Cons x xs)
  from Cons.prems have d: "distinct xs" and nx: "x \<notin> set xs" and xS: "x \<in> S" and sub: "set xs \<subseteq> S"
    by simp_all
  have eq: "upd_on (set xs) g (R(x := g x (R x))) = upd_on (set (x # xs)) g R"
    using nx by (auto simp: upd_on_def fun_eq_iff)
  have "for_each body (x # xs) (tab S R) = for_each body xs (tab S (R(x := g x (R x))))"
    by (simp add: body [OF xS])
  also have "\<dots> = Some (tab S (upd_on (set xs) g (R(x := g x (R x)))))"
    by (rule Cons.IH [OF d sub])
  finally show ?case
    by (simp only: eq)
qed

lemma Collect_mem_insert:
  "{x \<in> insert a A. P x} = (if P a then insert a {x \<in> A. P x} else {x \<in> A. P x})"
  by auto

lemma Collect_mem_empty: "{x \<in> {}. P x} = {}"
  by simp

lemma neutrinos_eq: "neutrinos = {''nu_e'', ''nu_mu'', ''nu_tau''}"
  unfolding neutrinos_def leptons_def
  apply (simp only: Collect_mem_insert Collect_mem_empty)
  apply simp
  done

lemma antineutrinos_eq: "antineutrinos = {''anti_nu_e'', ''anti_nu_mu'', ''anti_nu_tau''}"
  unfolding antineutrinos_def antileptons_def
  apply (simp only: Collect_mem_insert Collect_mem_empty)
  apply simp
  done

lemma taxonomy_lookups:
  "ParticleZoo_leptons = Some leptons"
  "ParticleZoo_antileptons = Some antileptons"
  "ParticleZoo_baryons = Some baryons"
  "ParticleZoo_antibaryons = Some antibaryons"
  "ParticleZoo_fermions = Some fermions"
  "ParticleZoo_bosons = Some bosons"
  "ParticleZoo_neutrinos = Some neutrinos"
  "ParticleZoo_antineutrinos = Some antineutrinos"
  "ParticleZoo_particles = Some particles"
  "ParticleZoo_antiparticles = Some antiparticles"
  "ParticleZoo_everything = Some everything"
  by (simp_all add: ParticleZoo_leptons_def ParticleZoo_antileptons_def ParticleZoo_baryons_def
      ParticleZoo_antibaryons_def ParticleZoo_fermions_def ParticleZoo_bosons_def
      ParticleZoo_neutrinos_def ParticleZoo_antineutrinos_def ParticleZoo_particles_def
      ParticleZoo_antiparticles_def ParticleZoo_everything_def everything_def taxonomy_dict_def)

lemma finite_sets:
  "finite leptons" "finite antileptons" "finite baryons" "finite antibaryons"
  "finite fermions" "finite bosons" "finite neutrinos" "finite antineutrinos"
  "finite particles" "finite antiparticles" "finite everything"
  "finite (leptons \<union> antileptons)" "finite (neutrinos \<union> antineutrinos)"
  by (simp_all add: neutrinos_eq antineutrinos_eq leptons_def antileptons_def baryons_def
      antibaryons_def fermions_def bosons_def particles_def antiparticles_def everything_def)

lemma subset_everything:
  "leptons \<subseteq> everything" "antileptons \<subseteq> everything" "baryons \<subseteq> everything"
  "antibaryons \<subseteq> everything" "fermions \<subseteq> everything" "bosons \<subseteq> everything"
  "neutrinos \<subseteq> everything" "antineutrinos \<subseteq> everything"
  "particles \<subseteq> everything" "antiparticles \<subseteq> everything"
  "leptons \<union> antileptons \<subseteq> everything" "neutrinos \<union> antineutrinos \<subseteq> everything"
  unfolding neutrinos_def antineutrinos_def fermions_def bosons_def
      particles_def antiparticles_def everything_def
  by blast+

lemma body_tab:
  assumes "x \<in> S"
  shows "fermion_body x (tab S R) = Some (tab S (R(x := fermion_fields x (R x))))"
    and "boson_body x (tab S R) = Some (tab S (R(x := boson_fields x (R x))))"
    and "lepton_body x (tab S R) = Some (tab S (R(x := lepton_fields x (R x))))"
    and "antilepton_body x (tab S R) = Some (tab S (R(x := antilepton_fields x (R x))))"
    and "baryon_body x (tab S R) = Some (tab S (R(x := baryon_fields x (R x))))"
    and "antibaryon_body x (tab S R) = Some (tab S (R(x := antibaryon_fields x (R x))))"
    and "generation_body x (tab S R) = Some (tab S (R(x := generation_fields x (R x))))"
    and "mass_body x (tab S R) = Some (tab S (R(x := mass_fields x (R x))))"
    and "neutrino_mass_body x (tab S R) = Some (tab S (R(x := neutrino_mass_fields x (R x))))"
    and "proton_mass_body x (tab S R) = Some (tab S (R(x := proton_mass_fields x (R x))))"
    and "neutron_body x (tab S R) = Some (tab S (R(x := neutron_fields x (R x))))"
    and "particle_body x (tab S R) = Some (tab S (R(x := particle_fields x (R x))))"
    and "antiparticle_body x (tab S R) = Some (tab S (R(x := antiparticle_fields x (R x))))"
  using assms
  by (simp_all add: fermion_body_def boson_body_def lepton_body_def antilepton_body_def
      baryon_body_def antibaryon_body_def generation_body_def mass_body_def
      neutrino_mass_body_def proton_mass_body_def neutron_body_def particle_body_def
      antiparticle_body_def fermion_fields_def boson_fields_def lepton_fields_def
      antilepton_fields_def baryon_fields_def antibaryon_fields_def generation_fields_def
      mass_fields_def neutrino_mass_fields_def proton_mass_fields_def neutron_fields_def
      particle_fields_def antiparticle_fields_def setitem2_tab taxonomy_lookups)

lemma half_life_body_tab:
  assumes "x \<in> S"
  shows "half_life_body x (tab S R) = Some (tab S (R(x := half_life_fields x (R x))))"
proof (cases "''half-life'' \<in> dom (R x)")
  case True
  with assms show ?thesis
    by (simp add: half_life_body_def half_life_fields_def tab_def)
next
  case False
  with assms have "half_life_body x (tab S R) = setitem2 (tab S R) x ''half-life'' (Quantity Infinity u_s)"
    by (simp add: half_life_body_def tab_def)
  with assms False show ?thesis
    by (simp add: setitem2_tab half_life_fields_def)
qed

lemma for_each_init_empty:
  "distinct xs \<Longrightarrow> for_each init_body xs Map.empty = Some (tab (set xs) (\<lambda>_. Map.empty))"
proof -
  assume d: "distinct xs"
  have "for_each init_body xs (tab {} (\<lambda>_. Map.empty))
      = Some (tab ({} \<union> set xs) (upd_on (set xs) (\<lambda>_ _. Map.empty) (\<lambda>_. Map.empty)))"
    by (rule for_each_init [OF d])
  moreover have "upd_on (set xs) (\<lambda>_ _. Map.empty) (\<lambda>_. Map.empty) = (\<lambda>_. Map.empty :: fields)"
    by (simp add: upd_on_def fun_eq_iff)
  moreover have "tab {} (\<lambda>_. Map.empty) = Map.empty"
    by (simp add: tab_def)
  ultimately show ?thesis by simp
qed

lemma for_each_name:
  "distinct (map fst xs) \<Longrightarrow> fst ` set xs \<subseteq> S \<Longrightarrow>
   for_each name_body xs (tab S R) =
     Some (tab S (\<lambda>k. case map_of xs k of None \<Rightarrow> R k | Some n \<Rightarrow> (R k)(''name'' \<mapsto> PyStr n)))"
proof (induction xs arbitrary: R)
  case Nil
  show ?case by simp
next
  case (Cons x xs)
  obtain a n where x: "x = (a, n)" by (cases x)
  from Cons.prems x have d: "distinct (map fst xs)" and na: "a \<notin> fst ` set xs"
    and aS: "a \<in> S" and sub: "fst ` set xs \<subseteq> S"
    by simp_all
  from na have none: "map_of xs a = None"
    by (simp add: map_of_eq_None_iff)
  let ?R = "R(a := (R a)(''name'' \<mapsto> PyStr n))"
  have "for_each name_body (x # xs) (tab S R) = for_each name_body xs (tab S ?R)"
    by (simp add: x name_body_def setitem2_tab [OF aS])
  also have "\<dots> = Some (tab S (\<lambda>k. case map_of xs k of None \<Rightarrow> ?R k | Some n \<Rightarrow> (?R k)(''name'' \<mapsto> PyStr n)))"
    by (rule Cons.IH [OF d sub])
  also have "(\<lambda>k. case map_of xs k of None \<Rightarrow> ?R k | Some n \<Rightarrow> (?R k)(''name'' \<mapsto> PyStr n))
      = (\<lambda>k. case map_of (x # xs) k of None \<Rightarrow> R k | Some n \<Rightarrow> (R k)(''name'' \<mapsto> PyStr n))"
    using none by (auto simp: x fun_eq_iff split: option.splits)
  finally show ?case .
qed

lemma names_distinct: "distinct (map fst symbols_and_names)"
  by (simp add: symbols_and_names_def)

lemma names_subset: "fst ` set symbols_and_names \<subseteq> everything"
  by (simp add: symbols_and_names_def everything_def particles_def antiparticles_def
      leptons_def antileptons_def baryons_def antibaryons_def)

lemma for_each_names:
  "for_each name_body symbols_and_names (tab everything R) =
     Some (tab everything (upd_on UNIV name_fields R))"
proof -
  have "(\<lambda>k. case map_of symbols_and_names k of None \<Rightarrow> R k | Some n \<Rightarrow> (R k)(''name'' \<mapsto> PyStr n))
      = upd_on UNIV name_fields R"
    by (simp add: upd_on_def name_fields_def fun_eq_iff)
  with for_each_name [OF names_distinct names_subset, of R] show ?thesis
    by simp
qed

lemma for_each_set:
  assumes "admissible it" and "finite A" and "A \<subseteq> S"
  shows "for_each fermion_body (it n A) (tab S R) = Some (tab S (upd_on A fermion_fields R))"
    and "for_each boson_body (it n A) (tab S R) = Some (tab S (upd_on A boson_fields R))"
    and "for_each lepton_body (it n A) (tab S R) = Some (tab S (upd_on A lepton_fields R))"
    and "for_each antilepton_body (it n A) (tab S R) = Some (tab S (upd_on A antilepton_fields R))"
    and "for_each baryon_body (it n A) (tab S R) = Some (tab S (upd_on A baryon_fields R))"
    and "for_each antibaryon_body (it n A) (tab S R) = Some (tab S (upd_on A antibaryon_fields R))"
    and "for_each generation_body (it n A) (tab S R) = Some (tab S (upd_on A generation_fields R))"
    and "for_each mass_body (it n A) (tab S R) = Some (tab S (upd_on A mass_fields R))"
    and "for_each neutrino_mass_body (it n A) (tab S R) = Some (tab S (upd_on A neutrino_mass_fields R))"
    and "for_each half_life_body (it n A) (tab S R) = Some (tab S (upd_on A half_life_fields R))"
    and "for_each particle_body (it n A) (tab S R) = Some (tab S (upd_on A particle_fields R))"
    and "for_each antiparticle_body (it n A) (tab S R) = Some (tab S (upd_on A antiparticle_fields R))"
proof -
  from assms have d: "distinct (it n A)" and s: "set (it n A) = A"
    by (simp_all add: admissible_def)
  from s assms(3) have sub: "set (it n A) \<subseteq> S" by simp
  note fe = for_each_local [OF _ d sub, unfolded s]
  show "for_each fermion_body (it n A) (tab S R) = Some (tab S (upd_on A fermion_fields R))"
    by (rule fe) (rule body_tab)
  show "for_each boson_body (it n A) (tab S R) = Some (tab S (upd_on A boson_fields R))"
    by (rule fe) (rule body_tab)
  show "for_each lepton_body (it n A) (tab S R) = Some (tab S (upd_on A lepton_fields R))"
    by (rule fe) (rule body_tab)
  show "for_each antilepton_body (it n A) (tab S R) = Some (tab S (upd_on A antilepton_fields R))"
    by (rule fe) (rule body_tab)
  show "for_each baryon_body (it n A) (tab S R) = Some (tab S (upd_on A baryon_fields R))"
    by (rule fe) (rule body_tab)
  show "for_each antibaryon_body (it n A) (tab S R) = Some (tab S (upd_on A antibaryon_fields R))"
    by (rule fe) (rule body_tab)
  show "for_each generation_body (it n A) (tab S R) = Some (tab S (upd_on A generation_fields R))"
    by (rule fe) (rule body_tab)
  show "for_each mass_body (it n A) (tab S R) = Some (tab S (upd_on A mass_fields R))"
    by (rule fe) (rule body_tab)
  show "for_each neutrino_mass_body (it n A) (tab S R) = Some (tab S (upd_on A neutrino_mass_fields R))"
    by (rule fe) (rule body_tab)
  show "for_each half_life_body (it n A) (tab S R) = Some (tab S (upd_on A half_life_fields R))"
    by (rule fe) (rule half_life_body_tab)
  show "for_each particle_body (it n A) (tab S R) = Some (tab S (upd_on A particle_fields R))"
    by (rule fe) (rule body_tab)
  show "for_each antiparticle_body (it n A) (tab S R) = Some (tab S (upd_on A antiparticle_fields R))"
    by (rule fe) (rule body_tab)
qed

lemma baryon_symbols_mem:
  "''p+'' \<in> everything" "''p-'' \<in> everything" "''n'' \<in> everything" "''antineutron'' \<in> everything"
  by (simp_all add: everything_def particles_def antiparticles_def baryons_def antibaryons_def)

lemma for_each_proton_mass:
  "for_each proton_mass_body [''p+'', ''p-''] (tab everything R) =
     Some (tab everything (upd_on {''p+'', ''p-''} proton_mass_fields R))"
proof -
  have "for_each proton_mass_body [''p+'', ''p-''] (tab everything R) =
     Some (tab everything (upd_on (set [''p+'', ''p-'']) proton_mass_fields R))"
    by (rule for_each_local) (simp_all add: body_tab baryon_symbols_mem)
  then show ?thesis by simp
qed

lemma for_each_neutron:
  "for_each neutron_body [''n'', ''antineutron''] (tab everything R) =
     Some (tab everything (upd_on {''n'', ''antineutron''} neutron_fields R))"
proof -
  have "for_each neutron_body [''n'', ''antineutron''] (tab everything R) =
     Some (tab everything (upd_on (set [''n'', ''antineutron'']) neutron_fields R))"
    by (rule for_each_local) (simp_all add: body_tab baryon_symbols_mem)
  then show ?thesis by simp
qed

lemma setitem2_upd_on:
  "k \<in> S \<Longrightarrow> setitem2 (tab S R) k f v = Some (tab S (upd_on {k} (\<lambda>_ r. r(f \<mapsto> v)) R))"
proof -
  have "upd_on {k} (\<lambda>_ r. r(f \<mapsto> v)) R = R(k := (R k)(f \<mapsto> v))"
    by (auto simp: upd_on_def fun_eq_iff)
  then show "k \<in> S \<Longrightarrow> ?thesis"
    by (simp only: setitem2_tab)
qed

lemma passes_to_class_eq:
  assumes "admissible it"
  shows "passes_to_class it = Some (tab everything records_to_class)"
proof -
  have init: "for_each init_body (it 0 everything) Map.empty = Some (tab everything (\<lambda>_. Map.empty))"
    using assms finite_sets(11) for_each_init_empty [of "it 0 everything"]
    by (simp add: admissible_def)
  note sets = for_each_set [OF assms]
  show ?thesis
    unfolding passes_to_class_def records_to_class_def
    by (simp del: for_each.simps add: taxonomy_lookups init for_each_names
        sets(1) [OF finite_sets(5) subset_everything(5)]
        sets(2) [OF finite_sets(6) subset_everything(6)]
        sets(3) [OF finite_sets(1) subset_everything(1)]
        sets(4) [OF finite_sets(2) subset_everything(2)]
        sets(5) [OF finite_sets(3) subset_everything(3)]
        sets(6) [OF finite_sets(4) subset_everything(4)])
qed

lemma passes_from_generation_eq:
  assumes "admissible it"
  shows "passes_from_generation it (tab everything R) =
           Some (tab everything (records_from_generation R))"
proof -
  note sets = for_each_set [OF assms]
  show ?thesis
    unfolding passes_from_generation_def records_from_generation_def
    by (simp del: for_each.simps add: taxonomy_lookups for_each_proton_mass
        sets(7) [OF finite_sets(12) subset_everything(11)]
        sets(8) [OF finite_sets(12) subset_everything(11)]
        sets(9) [OF finite_sets(13) subset_everything(12)])
qed

lemma passes_to_proton_mass_eq:
  assumes "admissible it"
  shows "passes_to_proton_mass it = Some (tab everything records_to_proton_mass)"
  by (simp add: passes_to_proton_mass_def records_to_proton_mass_def
      passes_to_class_eq [OF assms] passes_from_generation_eq [OF assms])

lemma proton_charge_pass_eq:
  "proton_charge_pass (tab everything R) = Some (tab everything (proton_charge_records R))"
  unfolding proton_charge_pass_def proton_charge_records_def
  by (simp add: setitem2_upd_on [OF baryon_symbols_mem(1)]
      setitem2_upd_on [OF baryon_symbols_mem(2)])

lemma passes_from_neutron_eq:
  assumes "admissible it"
  shows "passes_from_neutron it (tab everything R) =
           Some (tab everything (records_from_neutron R))"
proof -
  note sets = for_each_set [OF assms]
  show ?thesis
    unfolding passes_from_neutron_def records_from_neutron_def
    by (simp del: for_each.simps add: taxonomy_lookups for_each_neutron
        sets(10) [OF finite_sets(11) subset_refl]
        sets(11) [OF finite_sets(9) subset_everything(9)]
        sets(12) [OF finite_sets(10) subset_everything(10)])
qed

lemma passes_from_proton_charge_eq:
  assumes "admissible it"
  shows "passes_from_proton_charge it (tab everything R) =
           Some (tab everything (records_from_proton_charge R))"
  by (simp add: passes_from_proton_charge_def records_from_proton_charge_def
      proton_charge_pass_eq passes_from_neutron_eq [OF assms])

lemma create_Particles_dict_eq:
  assumes "admissible it"
  shows "create_Particles_dict it =
           Some (tab everything (records_from_proton_charge records_to_proton_mass))"
  by (simp add: create_Particles_dict_def passes_to_proton_mass_eq [OF assms]
      passes_from_proton_charge_eq [OF assms])

lemma create_Particles_dict_final:
  "admissible it \<Longrightarrow> create_Particles_dict it = Some (tab everything final_records)"
  by (simp add: create_Particles_dict_eq final_records_def)

lemma admissible_sorted_order: "admissible sorted_order"
  by (simp add: admissible_def sorted_order_def)

lemma admissible_reverse_order: "admissible reverse_order"
  by (simp add: admissible_def reverse_order_def)

lemma read_field_tab:
  "s \<in> S \<Longrightarrow>
   read_field (Some (tab S R)) s f = (case R s f of None \<Rightarrow> No_field | Some v \<Rightarrow> Present v)"
  by (simp add: read_field_def tab_def)

lemma read_final:
  "admissible it \<Longrightarrow> s \<in> everything \<Longrightarrow>
   read_field (create_Particles_dict it) s f =
     (case final_records s f of None \<Rightarrow> No_field | Some v \<Rightarrow> Present v)"
  by (simp add: create_Particles_dict_final read_field_tab)

lemma read_mid:
  "admissible it \<Longrightarrow> s \<in> everything \<Longrightarrow>
   read_field (passes_to_proton_mass it) s f =
     (case records_to_proton_mass s f of None \<Rightarrow> No_field | Some v \<Rightarrow> Present v)"
  by (simp add: passes_to_proton_mass_eq read_field_tab)

lemma read_class:
  "admissible it \<Longrightarrow> s \<in> everything \<Longrightarrow>
   read_field (passes_to_class it) s f =
     (case records_to_class s f of None \<Rightarrow> No_field | Some v \<Rightarrow> Present v)"
  by (simp add: passes_to_class_eq read_field_tab)

lemma read_charged:
  "admissible it \<Longrightarrow> s \<in> everything \<Longrightarrow>
   read_field (passes_to_proton_mass it \<bind> proton_charge_pass) s f =
     (case proton_charge_records records_to_proton_mass s f of
        None \<Rightarrow> No_field | Some v \<Rightarrow> Present v)"
  by (simp add: passes_to_proton_mass_eq proton_charge_pass_eq read_field_tab)

lemma upd_on_in: "k \<in> A \<Longrightarrow> upd_on A g R k = g k (R k)"
  by (simp add: upd_on_def)

lemma upd_on_out: "k \<notin> A \<Longrightarrow> upd_on A g R k = R k"
  by (simp add: upd_on_def)

lemmas eval_sets = everything_def particles_def antiparticles_def fermions_def bosons_def
  leptons_def antileptons_def baryons_def antibaryons_def neutrinos_eq antineutrinos_eq

lemmas eval_fields = name_fields_def symbols_and_names_def fermion_fields_def boson_fields_def
  lepton_fields_def antilepton_fields_def baryon_fields_def antibaryon_fields_def
  generation_fields_def mass_fields_def neutrino_mass_fields_def proton_mass_fields_def
  neutron_fields_def half_life_fields_def particle_fields_def antiparticle_fields_def

lemmas eval_records = final_records_def records_from_proton_charge_def
  records_from_neutron_def proton_charge_records_def records_to_proton_mass_def
  records_from_generation_def records_to_class_def upd_on_in upd_on_out domIff
  eval_sets eval_fields

lemma everything_eq:
  "everything =
     {''p-'', ''antineutron'', ''e+'', ''mu+'', ''tau+'', ''anti_nu_e'', ''anti_nu_mu'',
      ''anti_nu_tau'', ''p+'', ''n'', ''e-'', ''mu-'', ''tau-'', ''nu_e'', ''nu_mu'',
      ''nu_tau''}"
  by (simp add: everything_def particles_def antiparticles_def leptons_def antileptons_def
      baryons_def antibaryons_def)

section \<open>The records that the build produces\<close>

lemma final_e_minus:
  "final_records ''e-'' ''name'' = Some (PyStr ''electron'')"
  "final_records ''e-'' ''class'' = Some (PyStr ''lepton'')"
  "final_records ''e-'' ''spin'' = Some (PyFloat (Finite (5 / 10)))"
  "final_records ''e-'' ''charge'' = Some (PyInt (- 1))"
  "final_records ''e-'' ''lepton number'' = Some (PyInt 1)"
  "final_records ''e-'' ''baryon number'' = Some (PyInt 0)"
  "final_records ''e-'' ''generation'' = Some (PyInt 1)"
  "final_records ''e-'' ''mass'' = Some (Constant m_e)"
  "final_records ''e-'' ''half-life'' = Some (Quantity Infinity u_s)"
  "final_records ''e-'' ''antimatter'' = Some (PyBool False)"
  by (simp_all add: eval_records)

lemma final_e_plus:
  "final_records ''e+'' ''name'' = Some (PyStr ''positron'')"
  "final_records ''e+'' ''class'' = Some (PyStr ''antilepton'')"
  "final_records ''e+'' ''spin'' = Some (PyFloat (Finite (5 / 10)))"
  "final_records ''e+'' ''charge'' = Some (PyInt 1)"
  "final_records ''e+'' ''lepton number'' = Some (PyInt (- 1))"
  "final_records ''e+'' ''baryon number'' = Some (PyInt 0)"
  "final_records ''e+'' ''generation'' = Some (PyInt 1)"
  "final_records ''e+'' ''mass'' = Some (Constant m_e)"
  "final_records ''e+'' ''half-life'' = Some (Quantity Infinity u_s)"
  "final_records ''e+'' ''antimatter'' = Some (PyBool True)"
  by (simp_all add: eval_records)

lemma final_mu_minus:
  "final_records ''mu-'' ''name'' = Some (PyStr ''muon'')"
  "final_records ''mu-'' ''class'' = Some (PyStr ''lepton'')"
  "final_records ''mu-'' ''spin'' = Some (PyFloat (Finite (5 / 10)))"
  "final_records ''mu-'' ''charge'' = Some (PyInt (- 1))"
  "final_records ''mu-'' ''lepton number'' = Some (PyInt 1)"
  "final_records ''mu-'' ''baryon number'' = Some (PyInt 0)"
  "final_records ''mu-'' ''generation'' = Some (PyInt 2)"
  "final_records ''mu-'' ''mass'' = Some (Quantity (Finite (1883531594 / 10 ^ 37)) u_kg)"
  "final_records ''mu-'' ''half-life'' = Some (Quantity (Finite (21969811 / 10 ^ 13)) u_s)"
  "final_records ''mu-'' ''antimatter'' = Some (PyBool False)"
  by (simp_all add: eval_records)

lemma final_mu_plus:
  "final_records ''mu+'' ''name'' = Some (PyStr ''antimuon'')"
  "final_records ''mu+'' ''class'' = Some (PyStr ''antilepton'')"
  "final_records ''mu+'' ''spin'' = Some (PyFloat (Finite (5 / 10)))"
  "final_records ''mu+'' ''charge'' = Some (PyInt 1)"
  "final_records ''mu+'' ''lepton number'' = Some (PyInt (- 1))"
  "final_records ''mu+'' ''baryon number'' = Some (PyInt 0)"
  "final_records ''mu+'' ''generation'' = Some (PyInt 2)"
  "final_records ''mu+'' ''mass'' = Some (Quantity (Finite (1883531594 / 10 ^ 37)) u_kg)"
  "final_records ''mu+'' ''half-life'' = Some (Quantity (Finite (21969811 / 10 ^ 13)) u_s)"
  "final_records ''mu+'' ''antimatter'' = Some (PyBool True)"
  by (simp_all add: eval_records)

lemma final_tau_minus:
  "final_records ''tau-'' ''name'' = Some (PyStr ''tau'')"
  "final_records ''tau-'' ''class'' = Some (PyStr ''lepton'')"
  "final_records ''tau-'' ''spin'' = Some (PyFloat (Finite (5 / 10)))"
  "final_records ''tau-'' ''charge'' = Some (PyInt (- 1))"
  "final_records ''tau-'' ''lepton number'' = Some (PyInt 1)"
  "final_records ''tau-'' ''baryon number'' = Some (PyInt 0)"
  "final_records ''tau-'' ''generation'' = Some (PyInt 3)"
  "final_records ''tau-'' ''mass'' = Some (Quantity (Finite (316747 / 10 ^ 32)) u_kg)"
  "final_records ''tau-'' ''half-life'' = Some (Quantity (Finite (2906 / 10 ^ 16)) u_s)"
  "final_records ''tau-'' ''antimatter'' = Some (PyBool False)"
  by (simp_all add: eval_records)

lemma final_tau_plus:
  "final_records ''tau+'' ''name'' = Some (PyStr ''antitau'')"
  "final_records ''tau+'' ''class'' = Some (PyStr ''antilepton'')"
  "final_records ''tau+'' ''spin'' = Some (PyFloat (Finite (5 / 10)))"
  "final_records ''tau+'' ''charge'' = Some (PyInt 1)"
  "final_records ''tau+'' ''lepton number'' = Some (PyInt (- 1))"
  "final_records ''tau+'' ''baryon number'' = Some (PyInt 0)"
  "final_records ''tau+'' ''generation'' = Some (PyInt 3)"
  "final_records ''tau+'' ''mass'' = Some (Quantity (Finite (316747 / 10 ^ 32)) u_kg)"
  "final_records ''tau+'' ''half-life'' = Some (Quantity (Finite (2906 / 10 ^ 16)) u_s)"
  "final_records ''tau+'' ''antimatter'' = Some (PyBool True)"
  by (simp_all add: eval_records)

lemma final_nu_e:
  "final_records ''nu_e'' ''name'' = Some (PyStr ''electron neutrino'')"
  "final_records ''nu_e'' ''class'' = Some (PyStr ''lepton'')"
  "final_records ''nu_e'' ''spin'' = Some (PyFloat (Finite (5 / 10)))"
  "final_records ''nu_e'' ''charge'' = Some (PyInt 0)"
  "final_records ''nu_e'' ''lepton number'' = Some (PyInt 1)"
  "final_records ''nu_e'' ''baryon number'' = Some (PyInt 0)"
  "final_records ''nu_e'' ''generation'' = Some (PyInt 1)"
  "final_records ''nu_e'' ''mass'' = Some (PyNone)"
  "final_records ''nu_e'' ''half-life'' = Some (Quantity Infinity u_s)"
  "final_records ''nu_e'' ''antimatter'' = Some (PyBool False)"
  by (simp_all add: eval_records)

lemma final_anti_nu_e:
  "final_records ''anti_nu_e'' ''name'' = Some (PyStr ''electron antineutrino'')"
  "final_records ''anti_nu_e'' ''class'' = Some (PyStr ''antilepton'')"
  "final_records ''anti_nu_e'' ''spin'' = Some (PyFloat (Finite (5 / 10)))"
  "final_records ''anti_nu_e'' ''charge'' = Some (PyInt 0)"
  "final_records ''anti_nu_e'' ''lepton number'' = Some (PyInt (- 1))"
  "final_records ''anti_nu_e'' ''baryon number'' = Some (PyInt 0)"
  "final_records ''anti_nu_e'' ''generation'' = Some (PyInt 1)"
  "final_records ''anti_nu_e'' ''mass'' = Some (PyNone)"
  "final_records ''anti_nu_e'' ''half-life'' = Some (Quantity Infinity u_s)"
  "final_records ''anti_nu_e'' ''antimatter'' = Some (PyBool True)"
  by (simp_all add: eval_records)

lemma final_nu_mu:
  "final_records ''nu_mu'' ''name'' = Some (PyStr ''muon neutrino'')"
  "final_records ''nu_mu'' ''class'' = Some (PyStr ''lepton'')"
  "final_records ''nu_mu'' ''spin'' = Some (PyFloat (Finite (5 / 10)))"
  "final_records ''nu_mu'' ''charge'' = Some (PyInt 0)"
  "final_records ''nu_mu'' ''lepton number'' = Some (PyInt 1)"
  "final_records ''nu_mu'' ''baryon number'' = Some (PyInt 0)"
  "final_records ''nu_mu'' ''generation'' = Some (PyInt 2)"
  "final_records ''nu_mu'' ''mass'' = Some (PyNone)"
  "final_records ''nu_mu'' ''half-life'' = Some (Quantity Infinity u_s)"
  "final_records ''nu_mu'' ''antimatter'' = Some (PyBool False)"
  by (simp_all add: eval_records)

lemma final_anti_nu_mu:
  "final_records ''anti_nu_mu'' ''name'' = Some (PyStr ''muon antineutrino'')"
  "final_records ''anti_nu_mu'' ''class'' = Some (PyStr ''antilepton'')"
  "final_records ''anti_nu_mu'' ''spin'' = Some (PyFloat (Finite (5 / 10)))"
  "final_records ''anti_nu_mu'' ''charge'' = Some (PyInt 0)"
  "final_records ''anti_nu_mu'' ''lepton number'' = Some (PyInt (- 1))"
  "final_records ''anti_nu_mu'' ''baryon number'' = Some (PyInt 0)"
  "final_records ''anti_nu_mu'' ''generation'' = Some (PyInt 2)"
  "final_records ''anti_nu_mu'' ''mass'' = Some (PyNone)"
  "final_records ''anti_nu_mu'' ''half-life'' = Some (Quantity Infinity u_s)"
  "final_records ''anti_nu_mu'' ''antimatter'' = Some (PyBool True)"
  by (simp_all add: eval_records)

lemma final_nu_tau:
  "final_records ''nu_tau'' ''name'' = Some (PyStr ''tau neutrino'')"
  "final_records ''nu_tau'' ''class'' = Some (PyStr ''lepton'')"
  "final_records ''nu_tau'' ''spin'' = Some (PyFloat (Finite (5 / 10)))"
  "final_records ''nu_tau'' ''charge'' = Some (PyInt 0)"
  "final_records ''nu_tau'' ''lepton number'' = Some (PyInt 1)"
  "final_records ''nu_tau'' ''baryon number'' = Some (PyInt 0)"
  "final_records ''nu_tau'' ''generation'' = Some (PyInt 3)"
  "final_records ''nu_tau'' ''mass'' = Some (PyNone)"
  "final_records ''nu_tau'' ''half-life'' = Some (Quantity Infinity u_s)"
  "final_records ''nu_tau'' ''antimatter'' = Some (PyBool False)"
  by (simp_all add: eval_records)

lemma final_anti_nu_tau:
  "final_records ''anti_nu_tau'' ''name'' = Some (PyStr ''tau antineutrino'')"
  "final_records ''anti_nu_tau'' ''class'' = Some (PyStr ''antilepton'')"
  "final_records ''anti_nu_tau'' ''spin'' = Some (PyFloat (Finite (5 / 10)))"
  "final_records ''anti_nu_tau'' ''charge'' = Some (PyInt 0)"
  "final_records ''anti_nu_tau'' ''lepton number'' = Some (PyInt (- 1))"
  "final_records ''anti_nu_tau'' ''baryon number'' = Some (PyInt 0)"
  "final_records ''anti_nu_tau'' ''generation'' = Some (PyInt 3)"
  "final_records ''anti_nu_tau'' ''mass'' = Some (PyNone)"
  "final_records ''anti_nu_tau'' ''half-life'' = Some (Quantity Infinity u_s)"
  "final_records ''anti_nu_tau'' ''antimatter'' = Some (PyBool True)"
  by (simp_all add: eval_records)

lemma final_p_plus:
  "final_records ''p+'' ''name'' = Some (PyStr ''proton'')"
  "final_records ''p+'' ''class'' = Some (PyStr ''baryon'')"
  "final_records ''p+'' ''spin'' = Some (PyFloat (Finite (5 / 10)))"
  "final_records ''p+'' ''charge'' = Some (PyInt 1)"
  "final_records ''p+'' ''lepton number'' = Some (PyInt 0)"
  "final_records ''p+'' ''baryon number'' = Some (PyInt 1)"
  "final_records ''p+'' ''generation'' = None"
  "final_records ''p+'' ''mass'' = Some (Constant m_p)"
  "final_records ''p+'' ''half-life'' = Some (Quantity Infinity u_s)"
  "final_records ''p+'' ''antimatter'' = Some (PyBool False)"
  by (simp_all add: eval_records)

lemma final_p_minus:
  "final_records ''p-'' ''name'' = Some (PyStr ''antiproton'')"
  "final_records ''p-'' ''class'' = Some (PyStr ''antibaryon'')"
  "final_records ''p-'' ''spin'' = Some (PyFloat (Finite (5 / 10)))"
  "final_records ''p-'' ''charge'' = Some (PyInt (- 1))"
  "final_records ''p-'' ''lepton number'' = Some (PyInt 0)"
  "final_records ''p-'' ''baryon number'' = Some (PyInt (- 1))"
  "final_records ''p-'' ''generation'' = None"
  "final_records ''p-'' ''mass'' = Some (Constant m_p)"
  "final_records ''p-'' ''half-life'' = Some (Quantity Infinity u_s)"
  "final_records ''p-'' ''antimatter'' = Some (PyBool True)"
  by (simp_all add: eval_records)

lemma final_n:
  "final_records ''n'' ''name'' = Some (PyStr ''neutron'')"
  "final_records ''n'' ''class'' = Some (PyStr ''baryon'')"
  "final_records ''n'' ''spin'' = Some (PyFloat (Finite (5 / 10)))"
  "final_records ''n'' ''charge'' = Some (PyInt 0)"
  "final_records ''n'' ''lepton number'' = Some (PyInt 0)"
  "final_records ''n'' ''baryon number'' = Some (PyInt 1)"
  "final_records ''n'' ''generation'' = None"
  "final_records ''n'' ''mass'' = Some (Constant m_n)"
  "final_records ''n'' ''half-life'' = Some (Quantity (Finite (8815 / 10)) u_s)"
  "final_records ''n'' ''antimatter'' = Some (PyBool False)"
  by (simp_all add: eval_records)

lemma final_antineutron:
  "final_records ''antineutron'' ''name'' = Some (PyStr ''antineutron'')"
  "final_records ''antineutron'' ''class'' = Some (PyStr ''antibaryon'')"
  "final_records ''antineutron'' ''spin'' = Some (PyFloat (Finite (5 / 10)))"
  "final_records ''antineutron'' ''charge'' = Some (PyInt 0)"
  "final_records ''antineutron'' ''lepton number'' = Some (PyInt 0)"
  "final_records ''antineutron'' ''baryon number'' = Some (PyInt (- 1))"
  "final_records ''antineutron'' ''generation'' = None"
  "final_records ''antineutron'' ''mass'' = Some (Constant m_n)"
  "final_records ''antineutron'' ''half-life'' = Some (Quantity (Finite (8815 / 10)) u_s)"
  "final_records ''antineutron'' ''antimatter'' = Some (PyBool True)"
  by (simp_all add: eval_records)

lemma mid_p_plus:
  "records_to_proton_mass ''p+'' ''name'' = Some (PyStr ''proton'')"
  "records_to_proton_mass ''p+'' ''class'' = Some (PyStr ''baryon'')"
  "records_to_proton_mass ''p+'' ''spin'' = Some (PyFloat (Finite (5 / 10)))"
  "records_to_proton_mass ''p+'' ''charge'' = None"
  "records_to_proton_mass ''p+'' ''lepton number'' = Some (PyInt 0)"
  "records_to_proton_mass ''p+'' ''baryon number'' = Some (PyInt 1)"
  "records_to_proton_mass ''p+'' ''generation'' = None"
  "records_to_proton_mass ''p+'' ''mass'' = Some (Constant m_p)"
  "records_to_proton_mass ''p+'' ''half-life'' = None"
  "records_to_proton_mass ''p+'' ''antimatter'' = None"
  by (simp_all add: eval_records)

lemma mid_p_minus:
  "records_to_proton_mass ''p-'' ''name'' = Some (PyStr ''antiproton'')"
  "records_to_proton_mass ''p-'' ''class'' = Some (PyStr ''antibaryon'')"
  "records_to_proton_mass ''p-'' ''spin'' = Some (PyFloat (Finite (5 / 10)))"
  "records_to_proton_mass ''p-'' ''charge'' = None"
  "records_to_proton_mass ''p-'' ''lepton number'' = Some (PyInt 0)"
  "records_to_proton_mass ''p-'' ''baryon number'' = Some (PyInt (- 1))"
  "records_to_proton_mass ''p-'' ''generation'' = None"
  "records_to_proton_mass ''p-'' ''mass'' = Some (Constant m_p)"
  "records_to_proton_mass ''p-'' ''half-life'' = None"
  "records_to_proton_mass ''p-'' ''antimatter'' = None"
  by (simp_all add: eval_records)

lemma class_p_plus:
  "records_to_class ''p+'' ''class'' = Some (PyStr ''baryon'')"
  "records_to_class ''p+'' ''lepton number'' = Some (PyInt 0)"
  "records_to_class ''p+'' ''baryon number'' = Some (PyInt 1)"
  "records_to_class ''p+'' ''charge'' = None"
  by (simp_all add: eval_records)

lemma class_p_minus:
  "records_to_class ''p-'' ''class'' = Some (PyStr ''antibaryon'')"
  "records_to_class ''p-'' ''lepton number'' = Some (PyInt 0)"
  "records_to_class ''p-'' ''baryon number'' = Some (PyInt (- 1))"
  "records_to_class ''p-'' ''charge'' = None"
  by (simp_all add: eval_records)

lemma charged_protons:
  "proton_charge_records records_to_proton_mass ''p+'' ''charge'' = Some (PyInt 1)"
  "proton_charge_records records_to_proton_mass ''p-'' ''charge'' = Some (PyInt (- 1))"
  by (simp_all add: eval_records)

lemmas final_table = final_e_minus final_e_plus final_mu_minus final_mu_plus final_tau_minus
  final_tau_plus final_nu_e final_anti_nu_e final_nu_mu final_anti_nu_mu final_nu_tau
  final_anti_nu_tau final_p_plus final_p_minus final_n final_antineutron

lemma lepton_sets_eq:
  "leptons \<union> antileptons =
     {''e+'', ''mu+'', ''tau+'', ''anti_nu_e'', ''anti_nu_mu'', ''anti_nu_tau'',
      ''e-'', ''mu-'', ''tau-'', ''nu_e'', ''nu_mu'', ''nu_tau''}"
  by (simp add: leptons_def antileptons_def)

lemma baryon_sets_eq: "baryons \<union> antibaryons = {''p-'', ''antineutron'', ''p+'', ''n''}"
  by (simp add: baryons_def antibaryons_def)

section \<open>Neutrinos\<close>

text \<open>
  C5: for every symbol in \<open>neutrinos \<union> antineutrinos\<close> the built record has charge 0 and
  the mass \<^verbatim>\<open>None\<close>, the sentinel for an unknown mass; the mass is not a numeric zero,
  neither the integer nor the float. This holds whatever the order in which the loops
  visit their sets.
\<close>

theorem neutrino_charge_and_mass:
  assumes "admissible it"
  shows "\<forall>s \<in> neutrinos \<union> antineutrinos.
     read_field (create_Particles_dict it) s ''charge'' = Present (PyInt 0) \<and>
     read_field (create_Particles_dict it) s ''mass'' = Present PyNone \<and>
     read_field (create_Particles_dict it) s ''mass'' \<noteq> Present (PyInt 0) \<and>
     read_field (create_Particles_dict it) s ''mass'' \<noteq> Present (PyFloat (Finite 0))"
  unfolding neutrinos_eq antineutrinos_eq
  by (simp add: read_final [OF assms] everything_eq final_table)

theorem neutrino_charge_and_mass_witness:
  "admissible sorted_order \<and> ''anti_nu_mu'' \<in> neutrinos \<union> antineutrinos \<and>
   read_field (create_Particles_dict sorted_order) ''anti_nu_mu'' ''charge'' = Present (PyInt 0) \<and>
   read_field (create_Particles_dict sorted_order) ''anti_nu_mu'' ''mass'' = Present PyNone"
proof -
  have m: "''anti_nu_mu'' \<in> neutrinos \<union> antineutrinos"
    by (simp add: antineutrinos_eq)
  from neutrino_charge_and_mass [OF admissible_sorted_order] m admissible_sorted_order
  show ?thesis by blast
qed

section \<open>The generation field\<close>

text \<open>
  C10: after the build, the records of the four baryon and antibaryon symbols
  \<^verbatim>\<open>p+\<close>, \<^verbatim>\<open>p-\<close>, \<^verbatim>\<open>n\<close> and \<^verbatim>\<open>antineutron\<close> have no \<^verbatim>\<open>generation\<close> field (reading
  it finds the key absent), and the records of all twelve lepton and antilepton symbols
  have one.
\<close>

theorem generation_field_presence:
  assumes "admissible it"
  shows "(\<forall>s \<in> baryons \<union> antibaryons.
            read_field (create_Particles_dict it) s ''generation'' = No_field) \<and>
         (\<forall>s \<in> leptons \<union> antileptons.
            populated (create_Particles_dict it) s ''generation'') \<and>
         baryons \<union> antibaryons = {''p+'', ''p-'', ''n'', ''antineutron''} \<and>
         card (leptons \<union> antileptons) = 12"
proof -
  have "\<forall>s \<in> baryons \<union> antibaryons.
            read_field (create_Particles_dict it) s ''generation'' = No_field"
    unfolding baryon_sets_eq
    by (simp add: read_final [OF assms] everything_eq final_table)
  moreover have "\<forall>s \<in> leptons \<union> antileptons.
            populated (create_Particles_dict it) s ''generation''"
    unfolding lepton_sets_eq
    by (simp add: populated_def read_final [OF assms] everything_eq final_table)
  moreover have "baryons \<union> antibaryons = {''p+'', ''p-'', ''n'', ''antineutron''}"
    by (simp add: baryons_def antibaryons_def insert_commute)
  moreover have "card (leptons \<union> antileptons) = 12"
    unfolding lepton_sets_eq by simp
  ultimately show ?thesis by blast
qed

theorem generation_field_presence_witness:
  "admissible sorted_order \<and> ''n'' \<in> baryons \<union> antibaryons \<and>
   ''tau+'' \<in> leptons \<union> antileptons \<and>
   read_field (create_Particles_dict sorted_order) ''n'' ''generation'' = No_field \<and>
   populated (create_Particles_dict sorted_order) ''tau+'' ''generation''"
proof -
  have m: "''n'' \<in> baryons \<union> antibaryons" "''tau+'' \<in> leptons \<union> antileptons"
    by (simp_all add: baryons_def antileptons_def)
  from generation_field_presence [OF admissible_sorted_order] m admissible_sorted_order
  show ?thesis by blast
qed

section \<open>The proton charge\<close>

text \<open>
  C2, as the code has it: during the build, the charge of the proton-family symbols is
  not assigned by the generic class passes (passes 4 to 7), which give \<^verbatim>\<open>p+\<close> and
  \<^verbatim>\<open>p-\<close> a class, a lepton number and a baryon number but no charge; it is assigned
  for the first time by the particle-specific pass, +1 for \<^verbatim>\<open>p+\<close> and -1 for
  \<^verbatim>\<open>p-\<close>. That is, after the class passes, and still at the point where the
  particle-specific proton pass runs, the records of \<^verbatim>\<open>p+\<close> and \<^verbatim>\<open>p-\<close> carry no
  charge value; the pass creates the field, it replaces nothing, and the built records
  hold +1 and -1.
\<close>

theorem proton_charge_assigned_once:
  assumes "admissible it"
  shows "read_field (passes_to_class it) ''p+'' ''class'' = Present (PyStr ''baryon'') \<and>
         read_field (passes_to_class it) ''p+'' ''lepton number'' = Present (PyInt 0) \<and>
         read_field (passes_to_class it) ''p+'' ''baryon number'' = Present (PyInt 1) \<and>
         read_field (passes_to_class it) ''p+'' ''charge'' = No_field \<and>
         read_field (passes_to_class it) ''p-'' ''class'' = Present (PyStr ''antibaryon'') \<and>
         read_field (passes_to_class it) ''p-'' ''lepton number'' = Present (PyInt 0) \<and>
         read_field (passes_to_class it) ''p-'' ''baryon number'' = Present (PyInt (- 1)) \<and>
         read_field (passes_to_class it) ''p-'' ''charge'' = No_field \<and>
         read_field (passes_to_proton_mass it) ''p+'' ''charge'' = No_field \<and>
         read_field (passes_to_proton_mass it) ''p-'' ''charge'' = No_field \<and>
         read_field (passes_to_proton_mass it \<bind> proton_charge_pass) ''p+'' ''charge'' =
           Present (PyInt 1) \<and>
         read_field (passes_to_proton_mass it \<bind> proton_charge_pass) ''p-'' ''charge'' =
           Present (PyInt (- 1)) \<and>
         read_field (create_Particles_dict it) ''p+'' ''charge'' = Present (PyInt 1) \<and>
         read_field (create_Particles_dict it) ''p-'' ''charge'' = Present (PyInt (- 1))"
  by (simp add: read_final [OF assms] read_mid [OF assms] read_class [OF assms]
      read_charged [OF assms] everything_eq final_p_plus final_p_minus mid_p_plus
      mid_p_minus class_p_plus class_p_minus charged_protons)

theorem proton_charge_assigned_once_witness:
  "admissible sorted_order \<and>
   read_field (passes_to_class sorted_order) ''p+'' ''class'' = Present (PyStr ''baryon'') \<and>
   read_field (passes_to_class sorted_order) ''p+'' ''charge'' = No_field \<and>
   read_field (passes_to_class sorted_order) ''p-'' ''charge'' = No_field \<and>
   read_field (passes_to_proton_mass sorted_order) ''p+'' ''charge'' = No_field \<and>
   read_field (passes_to_proton_mass sorted_order) ''p-'' ''charge'' = No_field \<and>
   read_field (passes_to_proton_mass sorted_order \<bind> proton_charge_pass) ''p+'' ''charge'' =
     Present (PyInt 1) \<and>
   read_field (passes_to_proton_mass sorted_order \<bind> proton_charge_pass) ''p-'' ''charge'' =
     Present (PyInt (- 1)) \<and>
   read_field (create_Particles_dict sorted_order) ''p+'' ''charge'' = Present (PyInt 1) \<and>
   read_field (create_Particles_dict sorted_order) ''p-'' ''charge'' = Present (PyInt (- 1))"
  using proton_charge_assigned_once [OF admissible_sorted_order] admissible_sorted_order
  by simp

text \<open>
  C2 as stated fails: with the sets visited in ascending order, the dictionary that
  reaches the assignment of the proton charge holds the class of \<^verbatim>\<open>p+\<close> and of
  \<^verbatim>\<open>p-\<close>, set by the class passes, and no charge for either.
\<close>

theorem proton_charge_overwrite_counterexample:
  "\<not> populated (passes_to_proton_mass sorted_order) ''p+'' ''charge'' \<and>
   \<not> populated (passes_to_proton_mass sorted_order) ''p-'' ''charge'' \<and>
   read_field (passes_to_proton_mass sorted_order) ''p+'' ''class'' = Present (PyStr ''baryon'') \<and>
   read_field (passes_to_proton_mass sorted_order) ''p-'' ''class'' = Present (PyStr ''antibaryon'')"
  by (simp add: populated_def read_mid [OF admissible_sorted_order] everything_eq
      mid_p_plus mid_p_minus)

section \<open>The keys of the taxonomy\<close>

text \<open>
  C3: the dictionary \<^verbatim>\<open>_taxonomy_dict\<close> has ten keys. Nine are the singular names
  \<^verbatim>\<open>lepton\<close>, \<^verbatim>\<open>antilepton\<close>, \<^verbatim>\<open>baryon\<close>, \<^verbatim>\<open>antibaryon\<close>, \<^verbatim>\<open>fermion\<close>, \<^verbatim>\<open>boson\<close>,
  \<^verbatim>\<open>neutrino\<close>, \<^verbatim>\<open>matter\<close>, \<^verbatim>\<open>antimatter\<close>; the tenth is the plural
  \<^verbatim>\<open>antineutrinos\<close>. The name \<^verbatim>\<open>antineutrino\<close> is not a key, while its sibling
  \<^verbatim>\<open>neutrino\<close> is.
\<close>

theorem taxonomy_keys:
  "dom taxonomy_dict =
     {''lepton'', ''antilepton'', ''baryon'', ''antibaryon'', ''fermion'', ''boson'',
      ''neutrino'', ''antineutrinos'', ''matter'', ''antimatter''} \<and>
   taxonomy_dict ''antineutrino'' = None \<and>
   taxonomy_dict ''antineutrinos'' = Some antineutrinos \<and>
   taxonomy_dict ''neutrino'' = Some neutrinos"
proof -
  have "dom taxonomy_dict =
     {''lepton'', ''antilepton'', ''baryon'', ''antibaryon'', ''fermion'', ''boson'',
      ''neutrino'', ''antineutrinos'', ''matter'', ''antimatter''}"
    by (simp add: taxonomy_dict_def insert_commute)
  moreover have "taxonomy_dict ''antineutrino'' = None"
    "taxonomy_dict ''antineutrinos'' = Some antineutrinos"
    "taxonomy_dict ''neutrino'' = Some neutrinos"
    by (simp_all add: taxonomy_dict_def)
  ultimately show ?thesis by blast
qed

section \<open>Which fields a record has\<close>

text \<open>
  C1, as the code has it: after the build, every symbol of \<open>everything\<close> (there are 16)
  has the nine fields name, class, spin, charge, lepton number, baryon number, mass,
  half-life and antimatter in its record, and the tenth field, generation, is in the
  record exactly when the symbol is a lepton or an antilepton: the records of \<^verbatim>\<open>p+\<close>,
  \<^verbatim>\<open>p-\<close>, \<^verbatim>\<open>n\<close> and \<^verbatim>\<open>antineutron\<close> have no generation.
\<close>

theorem fields_populated:
  assumes "admissible it"
  shows "(\<forall>s \<in> everything. \<forall>f \<in> set record_fields.
            populated (create_Particles_dict it) s f =
              (f \<noteq> ''generation'' \<or> s \<in> leptons \<union> antileptons)) \<and>
         card everything = 16"
proof -
  have "\<forall>s \<in> everything. \<forall>f \<in> set record_fields.
            populated (create_Particles_dict it) s f =
              (f \<noteq> ''generation'' \<or> s \<in> leptons \<union> antileptons)"
    unfolding everything_eq record_fields_def lepton_sets_eq
    by (simp add: populated_def read_final [OF assms] everything_eq final_table)
  moreover have "card everything = 16"
    unfolding everything_eq by simp
  ultimately show ?thesis by blast
qed

theorem fields_populated_witness:
  "admissible sorted_order \<and> ''nu_tau'' \<in> everything \<and> ''generation'' \<in> set record_fields \<and>
   ''nu_tau'' \<in> leptons \<union> antileptons \<and>
   populated (create_Particles_dict sorted_order) ''nu_tau'' ''generation''"
proof -
  have m: "''nu_tau'' \<in> everything" "''generation'' \<in> set record_fields"
    "''nu_tau'' \<in> leptons \<union> antileptons"
    by (simp_all add: everything_eq record_fields_def leptons_def)
  from fields_populated [OF admissible_sorted_order] m
  have "populated (create_Particles_dict sorted_order) ''nu_tau'' ''generation''"
    by blast
  with m admissible_sorted_order show ?thesis by blast
qed

text \<open>
  C1 as stated fails: \<^verbatim>\<open>p+\<close> is a symbol of \<open>everything\<close> and \<^verbatim>\<open>generation\<close> one of the
  ten fields, and the record built for \<^verbatim>\<open>p+\<close> has no \<^verbatim>\<open>generation\<close> field.
\<close>

theorem fields_populated_counterexample:
  "''p+'' \<in> everything \<and> ''generation'' \<in> set record_fields \<and>
   \<not> populated (create_Particles_dict sorted_order) ''p+'' ''generation'' \<and>
   read_field (create_Particles_dict sorted_order) ''p+'' ''generation'' = No_field"
  by (simp add: populated_def read_final [OF admissible_sorted_order] everything_eq
      record_fields_def final_p_plus)

section \<open>The generation of a lepton\<close>

text \<open>
  C4: for every symbol in \<open>leptons \<union> antileptons\<close> exactly one of the three tests
  \<^verbatim>\<open>'e' in symbol\<close>, \<^verbatim>\<open>'mu' in symbol\<close>, \<^verbatim>\<open>'tau' in symbol\<close> holds, so the chain of
  tests never falls through, and the built record has generation 1 where the first
  holds, 2 where the second, 3 where the third: 1 for the electron, the positron and
  their neutrinos, 2 for the muon family, 3 for the tau family.
\<close>

theorem lepton_generation:
  assumes "admissible it"
  shows "(\<forall>s \<in> leptons \<union> antileptons.
            exactly_one [py_in ''e'' s, py_in ''mu'' s, py_in ''tau'' s] \<and>
            read_field (create_Particles_dict it) s ''generation'' =
              Present (PyInt (if py_in ''e'' s then 1 else if py_in ''mu'' s then 2 else 3))) \<and>
         (\<forall>s \<in> {''e-'', ''e+'', ''nu_e'', ''anti_nu_e''}.
            read_field (create_Particles_dict it) s ''generation'' = Present (PyInt 1)) \<and>
         (\<forall>s \<in> {''mu-'', ''mu+'', ''nu_mu'', ''anti_nu_mu''}.
            read_field (create_Particles_dict it) s ''generation'' = Present (PyInt 2)) \<and>
         (\<forall>s \<in> {''tau-'', ''tau+'', ''nu_tau'', ''anti_nu_tau''}.
            read_field (create_Particles_dict it) s ''generation'' = Present (PyInt 3))"
proof -
  have "\<forall>s \<in> leptons \<union> antileptons.
            exactly_one [py_in ''e'' s, py_in ''mu'' s, py_in ''tau'' s] \<and>
            read_field (create_Particles_dict it) s ''generation'' =
              Present (PyInt (if py_in ''e'' s then 1 else if py_in ''mu'' s then 2 else 3))"
    unfolding lepton_sets_eq
    by (simp add: exactly_one_def read_final [OF assms] everything_eq final_table)
  moreover have "\<forall>s \<in> {''e-'', ''e+'', ''nu_e'', ''anti_nu_e''}.
            read_field (create_Particles_dict it) s ''generation'' = Present (PyInt 1)"
    by (simp add: read_final [OF assms] everything_eq final_table)
  moreover have "\<forall>s \<in> {''mu-'', ''mu+'', ''nu_mu'', ''anti_nu_mu''}.
            read_field (create_Particles_dict it) s ''generation'' = Present (PyInt 2)"
    by (simp add: read_final [OF assms] everything_eq final_table)
  moreover have "\<forall>s \<in> {''tau-'', ''tau+'', ''nu_tau'', ''anti_nu_tau''}.
            read_field (create_Particles_dict it) s ''generation'' = Present (PyInt 3)"
    by (simp add: read_final [OF assms] everything_eq final_table)
  ultimately show ?thesis by blast
qed

theorem lepton_generation_witness:
  "admissible sorted_order \<and> ''anti_nu_mu'' \<in> leptons \<union> antileptons \<and>
   exactly_one [py_in ''e'' ''anti_nu_mu'', py_in ''mu'' ''anti_nu_mu'', py_in ''tau'' ''anti_nu_mu''] \<and>
   read_field (create_Particles_dict sorted_order) ''anti_nu_mu'' ''generation'' = Present (PyInt 2)"
proof -
  have m: "''anti_nu_mu'' \<in> leptons \<union> antileptons"
    by (simp add: antileptons_def)
  have n: "''anti_nu_mu'' \<in> {''mu-'', ''mu+'', ''nu_mu'', ''anti_nu_mu''}"
    by simp
  from lepton_generation [OF admissible_sorted_order] m n admissible_sorted_order
  show ?thesis by blast
qed

section \<open>The sets of the taxonomy\<close>

text \<open>
  C6: matter and antimatter (the sets \<open>particles\<close> and \<open>antiparticles\<close>) are disjoint
  and every symbol of \<open>everything\<close> lies in exactly one of them; \<open>fermions\<close> is the union
  of leptons, antileptons, baryons and antibaryons; the neutrinos are leptons and the
  antineutrinos antileptons; \<open>bosons\<close> is empty, hence disjoint from every other
  category. These are the sets that the properties of the class return.
\<close>

theorem taxonomy_invariants:
  "particles \<inter> antiparticles = {} \<and>
   (\<forall>s \<in> everything. (s \<in> particles) \<noteq> (s \<in> antiparticles)) \<and>
   fermions = leptons \<union> antileptons \<union> baryons \<union> antibaryons \<and>
   neutrinos \<subseteq> leptons \<and> antineutrinos \<subseteq> antileptons \<and>
   bosons = {} \<and>
   bosons \<inter> (leptons \<union> antileptons \<union> baryons \<union> antibaryons \<union> fermions \<union> neutrinos
     \<union> antineutrinos \<union> particles \<union> antiparticles) = {} \<and>
   ParticleZoo_particles = Some particles \<and> ParticleZoo_antiparticles = Some antiparticles \<and>
   ParticleZoo_everything = Some everything \<and> ParticleZoo_fermions = Some fermions \<and>
   ParticleZoo_bosons = Some bosons \<and> ParticleZoo_neutrinos = Some neutrinos \<and>
   ParticleZoo_antineutrinos = Some antineutrinos \<and> ParticleZoo_leptons = Some leptons \<and>
   ParticleZoo_antileptons = Some antileptons \<and> ParticleZoo_baryons = Some baryons \<and>
   ParticleZoo_antibaryons = Some antibaryons"
proof -
  have disj: "particles \<inter> antiparticles = {}"
    by (simp add: particles_def antiparticles_def leptons_def antileptons_def baryons_def
        antibaryons_def)
  have one: "\<forall>s \<in> everything. (s \<in> particles) \<noteq> (s \<in> antiparticles)"
  proof
    fix s assume "s \<in> everything"
    then have "s \<in> particles \<or> s \<in> antiparticles"
      by (simp add: everything_def)
    moreover from disj have "\<not> (s \<in> particles \<and> s \<in> antiparticles)"
      by (simp add: disjoint_iff)
    ultimately show "(s \<in> particles) \<noteq> (s \<in> antiparticles)"
      by (simp only: simp_thms) argo
  qed
  have ferm: "fermions = leptons \<union> antileptons \<union> baryons \<union> antibaryons"
    by (simp add: fermions_def)
  have nu: "neutrinos \<subseteq> leptons" and anu: "antineutrinos \<subseteq> antileptons"
    by (simp_all add: neutrinos_def antineutrinos_def)
  have bos: "bosons = {}"
    by (simp add: bosons_def)
  have bos_disj: "bosons \<inter> (leptons \<union> antileptons \<union> baryons \<union> antibaryons \<union> fermions
     \<union> neutrinos \<union> antineutrinos \<union> particles \<union> antiparticles) = {}"
    by (simp add: bosons_def)
  show ?thesis
    by (intro conjI disj one ferm nu anu bos bos_disj taxonomy_lookups)
qed

theorem taxonomy_invariants_witness:
  "''mu+'' \<in> everything \<and> ''mu+'' \<notin> particles \<and> ''mu+'' \<in> antiparticles"
proof -
  have m: "''mu+'' \<in> everything" and a: "''mu+'' \<in> antiparticles"
    by (simp_all add: everything_eq antiparticles_def antileptons_def)
  from taxonomy_invariants [THEN conjunct2, THEN conjunct1, THEN bspec, OF m]
  have "(''mu+'' \<in> particles) \<noteq> (''mu+'' \<in> antiparticles)" .
  with m a show ?thesis by simp
qed

section \<open>Half-lives\<close>

text \<open>
  C7: after the build, \<^verbatim>\<open>n\<close> and \<^verbatim>\<open>antineutron\<close> have the half-life 881.5 s and the
  charge 0; \<^verbatim>\<open>mu-\<close> and \<^verbatim>\<open>mu+\<close> have the half-life 2.1969811e-6 s; \<^verbatim>\<open>tau-\<close> and
  \<^verbatim>\<open>tau+\<close> have the half-life 2.906e-13 s; every other symbol of \<open>everything\<close>, that
  is \<^verbatim>\<open>e-\<close>, \<^verbatim>\<open>e+\<close>, the six neutrino and antineutrino symbols, \<^verbatim>\<open>p+\<close> and \<^verbatim>\<open>p-\<close>,
  has the infinite half-life \<^verbatim>\<open>np.inf * u.s\<close>.
\<close>

theorem half_lives:
  assumes "admissible it"
  shows "(\<forall>s \<in> {''n'', ''antineutron''}.
            read_field (create_Particles_dict it) s ''half-life'' =
              Present (Quantity (Finite (8815 / 10)) u_s) \<and>
            read_field (create_Particles_dict it) s ''charge'' = Present (PyInt 0)) \<and>
         (\<forall>s \<in> {''mu-'', ''mu+''}.
            read_field (create_Particles_dict it) s ''half-life'' =
              Present (Quantity (Finite (21969811 / 10 ^ 13)) u_s)) \<and>
         (\<forall>s \<in> {''tau-'', ''tau+''}.
            read_field (create_Particles_dict it) s ''half-life'' =
              Present (Quantity (Finite (2906 / 10 ^ 16)) u_s)) \<and>
         (\<forall>s \<in> everything - {''n'', ''antineutron'', ''mu-'', ''mu+'', ''tau-'', ''tau+''}.
            read_field (create_Particles_dict it) s ''half-life'' =
              Present (Quantity Infinity u_s)) \<and>
         everything - {''n'', ''antineutron'', ''mu-'', ''mu+'', ''tau-'', ''tau+''} =
           {''e-'', ''e+'', ''p+'', ''p-''} \<union> neutrinos \<union> antineutrinos"
proof -
  have rest: "everything - {''n'', ''antineutron'', ''mu-'', ''mu+'', ''tau-'', ''tau+''} =
       {''p-'', ''e+'', ''anti_nu_e'', ''anti_nu_mu'', ''anti_nu_tau'', ''p+'', ''e-'',
        ''nu_e'', ''nu_mu'', ''nu_tau''}"
    unfolding everything_eq by (simp add: insert_Diff_if)
  have neutron: "\<forall>s \<in> {''n'', ''antineutron''}.
            read_field (create_Particles_dict it) s ''half-life'' =
              Present (Quantity (Finite (8815 / 10)) u_s) \<and>
            read_field (create_Particles_dict it) s ''charge'' = Present (PyInt 0)"
    by (simp add: read_final [OF assms] everything_eq final_table)
  have muon: "\<forall>s \<in> {''mu-'', ''mu+''}.
            read_field (create_Particles_dict it) s ''half-life'' =
              Present (Quantity (Finite (21969811 / 10 ^ 13)) u_s)"
    by (simp add: read_final [OF assms] everything_eq final_table)
  have tau: "\<forall>s \<in> {''tau-'', ''tau+''}.
            read_field (create_Particles_dict it) s ''half-life'' =
              Present (Quantity (Finite (2906 / 10 ^ 16)) u_s)"
    by (simp add: read_final [OF assms] everything_eq final_table)
  have stable: "\<forall>s \<in> everything - {''n'', ''antineutron'', ''mu-'', ''mu+'', ''tau-'', ''tau+''}.
            read_field (create_Particles_dict it) s ''half-life'' =
              Present (Quantity Infinity u_s)"
    unfolding rest
    by (simp add: read_final [OF assms] everything_eq final_table)
  have others: "everything - {''n'', ''antineutron'', ''mu-'', ''mu+'', ''tau-'', ''tau+''} =
           {''e-'', ''e+'', ''p+'', ''p-''} \<union> neutrinos \<union> antineutrinos"
    unfolding rest neutrinos_eq antineutrinos_eq
    by (simp add: insert_commute)
  show ?thesis
    by (intro conjI neutron muon tau stable others)
qed

theorem half_lives_witness:
  "admissible sorted_order \<and>
   ''p-'' \<in> everything - {''n'', ''antineutron'', ''mu-'', ''mu+'', ''tau-'', ''tau+''} \<and>
   read_field (create_Particles_dict sorted_order) ''antineutron'' ''half-life'' =
     Present (Quantity (Finite (8815 / 10)) u_s) \<and>
   read_field (create_Particles_dict sorted_order) ''mu+'' ''half-life'' =
     Present (Quantity (Finite (21969811 / 10 ^ 13)) u_s) \<and>
   read_field (create_Particles_dict sorted_order) ''tau-'' ''half-life'' =
     Present (Quantity (Finite (2906 / 10 ^ 16)) u_s) \<and>
   read_field (create_Particles_dict sorted_order) ''p-'' ''half-life'' =
     Present (Quantity Infinity u_s)"
proof -
  note h = half_lives [OF admissible_sorted_order]
  have m: "''p-'' \<in> everything - {''n'', ''antineutron'', ''mu-'', ''mu+'', ''tau-'', ''tau+''}"
    by (simp add: everything_eq)
  have n: "''antineutron'' \<in> {''n'', ''antineutron''}" and mu: "''mu+'' \<in> {''mu-'', ''mu+''}"
    and tau: "''tau-'' \<in> {''tau-'', ''tau+''}"
    by simp_all
  note a = h [THEN conjunct1, THEN bspec, OF n, THEN conjunct1]
  note b = h [THEN conjunct2, THEN conjunct1, THEN bspec, OF mu]
  note c = h [THEN conjunct2, THEN conjunct2, THEN conjunct1, THEN bspec, OF tau]
  note d = h [THEN conjunct2, THEN conjunct2, THEN conjunct2, THEN conjunct1, THEN bspec, OF m]
  show ?thesis
    by (intro conjI admissible_sorted_order m a b c d)
qed

section \<open>The build does not depend on the iteration order\<close>

lemma orders_differ: "sorted_order n baryons \<noteq> reverse_order n baryons"
proof -
  let ?xs = "sorted_list_of_set baryons"
  have "card baryons = 2"
    by (simp add: baryons_def)
  then have len: "length ?xs = Suc (Suc 0)"
    by (simp add: length_sorted_list_of_set)
  from len obtain a ys where ys: "?xs = a # ys" "length ys = Suc 0"
    by (metis length_Suc_conv)
  from ys(2) obtain b where "ys = [b]"
    by (metis length_Suc_conv length_0_conv)
  with ys(1) have ab: "?xs = [a, b]"
    by (simp only:)
  have "distinct ?xs"
    by (rule distinct_sorted_list_of_set)
  with ab have "a \<noteq> b"
    by simp
  with ab show ?thesis
    by (simp add: sorted_order_def reverse_order_def)
qed

text \<open>
  C8: the build is deterministic: two runs against the same taxonomy, each visiting its
  sets in an order of its own, both return, and they return the same dictionary, so
  that every field of every symbol of \<open>everything\<close> reads the same in both.
\<close>

theorem build_deterministic:
  assumes "admissible it" and "admissible it'"
  shows "create_Particles_dict it = create_Particles_dict it' \<and>
         create_Particles_dict it \<noteq> None \<and>
         (\<forall>s \<in> everything. \<forall>f.
            read_field (create_Particles_dict it) s f = read_field (create_Particles_dict it') s f \<and>
            read_field (create_Particles_dict it) s f \<noteq> Build_raised \<and>
            read_field (create_Particles_dict it) s f \<noteq> No_symbol)"
  by (simp add: create_Particles_dict_final [OF assms(1)] create_Particles_dict_final [OF assms(2)]
      read_field_tab split: option.split)

theorem build_deterministic_witness:
  "admissible sorted_order \<and> admissible reverse_order \<and>
   sorted_order 0 baryons \<noteq> reverse_order 0 baryons \<and>
   create_Particles_dict sorted_order = create_Particles_dict reverse_order \<and>
   create_Particles_dict sorted_order \<noteq> None \<and>
   ''e-'' \<in> everything \<and>
   read_field (create_Particles_dict sorted_order) ''e-'' ''mass'' =
     read_field (create_Particles_dict reverse_order) ''e-'' ''mass''"
proof -
  note h = build_deterministic [OF admissible_sorted_order admissible_reverse_order]
  have m: "''e-'' \<in> everything"
    by (simp add: everything_eq)
  note d = orders_differ [of 0]
  note a = h [THEN conjunct1]
  note b = h [THEN conjunct2, THEN conjunct1]
  note c = h [THEN conjunct2, THEN conjunct2, THEN bspec, OF m, THEN spec, THEN conjunct1]
  show ?thesis
    by (intro conjI admissible_sorted_order admissible_reverse_order d a b m c)
qed

section \<open>Particles and their antiparticles\<close>

text \<open>
  C9: for each of the eight pairs of a particle and its antiparticle, (e-, e+),
  (mu-, mu+), (tau-, tau+), (nu_e, anti_nu_e), (nu_mu, anti_nu_mu), (nu_tau, anti_nu_tau),
  (p+, p-) and (n, antineutron), the two built records have opposite charge, opposite
  lepton number and opposite baryon number, the same spin, the same mass and the same
  half-life, and the antimatter flag is false for the particle and true for the
  antiparticle.
\<close>

theorem antiparticle_symmetry:
  assumes "admissible it"
  shows "\<forall>(p, a) \<in> set antiparticle_pairs.
     negated (read_field (create_Particles_dict it) p ''charge'')
             (read_field (create_Particles_dict it) a ''charge'') \<and>
     negated (read_field (create_Particles_dict it) p ''lepton number'')
             (read_field (create_Particles_dict it) a ''lepton number'') \<and>
     negated (read_field (create_Particles_dict it) p ''baryon number'')
             (read_field (create_Particles_dict it) a ''baryon number'') \<and>
     same_value (read_field (create_Particles_dict it) p ''spin'')
                (read_field (create_Particles_dict it) a ''spin'') \<and>
     same_value (read_field (create_Particles_dict it) p ''mass'')
                (read_field (create_Particles_dict it) a ''mass'') \<and>
     same_value (read_field (create_Particles_dict it) p ''half-life'')
                (read_field (create_Particles_dict it) a ''half-life'') \<and>
     read_field (create_Particles_dict it) p ''antimatter'' = Present (PyBool False) \<and>
     read_field (create_Particles_dict it) a ''antimatter'' = Present (PyBool True)"
  unfolding antiparticle_pairs_def
  by (simp add: read_final [OF assms] everything_eq final_table)

theorem antiparticle_symmetry_witness:
  "admissible sorted_order \<and> (''p+'', ''p-'') \<in> set antiparticle_pairs \<and>
   negated (read_field (create_Particles_dict sorted_order) ''p+'' ''charge'')
           (read_field (create_Particles_dict sorted_order) ''p-'' ''charge'') \<and>
   negated (read_field (create_Particles_dict sorted_order) ''p+'' ''baryon number'')
           (read_field (create_Particles_dict sorted_order) ''p-'' ''baryon number'') \<and>
   same_value (read_field (create_Particles_dict sorted_order) ''p+'' ''mass'')
              (read_field (create_Particles_dict sorted_order) ''p-'' ''mass'') \<and>
   read_field (create_Particles_dict sorted_order) ''p+'' ''antimatter'' = Present (PyBool False) \<and>
   read_field (create_Particles_dict sorted_order) ''p-'' ''antimatter'' = Present (PyBool True)"
proof -
  have m: "(''p+'', ''p-'') \<in> set antiparticle_pairs"
    by (simp add: antiparticle_pairs_def)
  from antiparticle_symmetry [OF admissible_sorted_order, THEN bspec, OF m]
  show ?thesis
    using admissible_sorted_order m by simp
qed

end
